theory Spec2Isabelle
  imports Main "HOL-Library.Sublist"
begin

section \<open>JavaScript values of \<open>src/sdk/namespace_fs.js\<close>\<close>

text \<open>
  The embedding follows \<open>namespace_fs.js\<close>.  A JavaScript function name that starts
  with an underscore loses it (\<open>_get_etag\<close> is \<open>get_etag\<close>), since an Isabelle
  name cannot start with one.

  A plain JavaScript object with string values (an xattr set) is an association list in
  insertion order.  Assigning to a key that is present replaces its value in place,
  assigning to a new key appends it.  The same three operations serve every table keyed
  by strings.
\<close>

type_synonym js_object = "(string \<times> string) list"

fun obj_set :: "(string \<times> 'v) list \<Rightarrow> string \<Rightarrow> 'v \<Rightarrow> (string \<times> 'v) list" where
  "obj_set [] k v = [(k, v)]"
| "obj_set ((k', v') # kvs) k v =
     (if k' = k then (k, v) # kvs else (k', v') # obj_set kvs k v)"

definition obj_get :: "(string \<times> 'v) list \<Rightarrow> string \<Rightarrow> 'v option" where
  "obj_get obj k = map_of obj k"

definition obj_delete :: "(string \<times> 'v) list \<Rightarrow> string \<Rightarrow> (string \<times> 'v) list" where
  "obj_delete obj k = filter (\<lambda>kv. fst kv \<noteq> k) obj"

text \<open>\<open>_.mapKeys(obj, f)\<close>: \<open>result[f(value, key)] = value\<close> for every own key, in order.\<close>

definition mapKeys :: "js_object \<Rightarrow> (string \<Rightarrow> string \<Rightarrow> string) \<Rightarrow> js_object" where
  "mapKeys obj f = foldl (\<lambda>acc kv. obj_set acc (f (snd kv) (fst kv)) (snd kv)) [] obj"

text \<open>\<open>Object.assign(target, source)\<close>.\<close>

definition Object_assign :: "js_object \<Rightarrow> js_object \<Rightarrow> js_object" where
  "Object_assign target source = foldl (\<lambda>acc kv. obj_set acc (fst kv) (snd kv)) target source"

text \<open>\<open>_.isEmpty\<close> of an object that may be \<open>undefined\<close>.\<close>

definition isEmpty :: "js_object option \<Rightarrow> bool" where
  "isEmpty obj = (case obj of None \<Rightarrow> True | Some kvs \<Rightarrow> kvs = [])"

text \<open>Truthiness of a string that may be \<open>undefined\<close>: the empty string is falsy.\<close>

definition truthy :: "string option \<Rightarrow> bool" where
  "truthy v = (case v of None \<Rightarrow> False | Some s \<Rightarrow> s \<noteq> [])"

text \<open>
  An \<open>Error\<close> object with the three properties the file reads: \<open>message\<close>, \<open>code\<close>
  (set by \<open>error_utils.new_error_code\<close> and by the native layer) and \<open>rpc_code\<close>
  (set by \<open>RpcError\<close> and by \<open>_translate_object_error_codes\<close>).
\<close>

record js_error =
  err_message :: string
  err_code :: "string option"
  err_rpc_code :: "string option"

definition new_Error :: "string \<Rightarrow> js_error" where
  "new_Error msg = \<lparr>err_message = msg, err_code = None, err_rpc_code = None\<rparr>"

definition new_RpcError :: "string \<Rightarrow> string \<Rightarrow> js_error" where
  "new_RpcError rpc msg = \<lparr>err_message = msg, err_code = None, err_rpc_code = Some rpc\<rparr>"

definition new_error_code :: "string \<Rightarrow> string \<Rightarrow> js_error" where
  "new_error_code c msg = \<lparr>err_message = msg, err_code = Some c, err_rpc_code = None\<rparr>"

section \<open>Constants and configuration\<close>

definition XATTR_USER_PREFIX :: string where "XATTR_USER_PREFIX = ''user.''"
definition XATTR_CONTENT_TYPE :: string where "XATTR_CONTENT_TYPE = XATTR_USER_PREFIX @ ''content_type''"
definition XATTR_MD5_KEY :: string where "XATTR_MD5_KEY = XATTR_USER_PREFIX @ ''content_md5''"
definition XATTR_VERSION_ID :: string where "XATTR_VERSION_ID = XATTR_USER_PREFIX @ ''version_id''"
definition XATTR_PREV_VERSION_ID :: string where "XATTR_PREV_VERSION_ID = XATTR_USER_PREFIX @ ''prev_version_id''"
definition XATTR_DELETE_MARKER :: string where "XATTR_DELETE_MARKER = XATTR_USER_PREFIX @ ''delete_marker''"
definition XATTR_DIR_CONTENT :: string where "XATTR_DIR_CONTENT = XATTR_USER_PREFIX @ ''dir_content''"
definition HIDDEN_VERSIONS_PATH :: string where "HIDDEN_VERSIONS_PATH = ''.versions''"
definition NULL_VERSION_ID :: string where "NULL_VERSION_ID = ''null''"

definition INTERNAL_XATTR :: "string list" where
  "INTERNAL_XATTR =
     [XATTR_CONTENT_TYPE, XATTR_DIR_CONTENT, XATTR_PREV_VERSION_ID, XATTR_DELETE_MARKER]"

datatype versioning_status = VER_ENABLED | VER_SUSPENDED | VER_DISABLED

definition posix_link_retry_err :: string where
  "posix_link_retry_err = ''FS::SafeLink ERROR link target doesn't match expected inode and mtime''"
definition posix_unlink_retry_err :: string where
  "posix_unlink_retry_err = ''FS::SafeUnlink ERROR unlink target doesn't match expected inode and mtime''"

text \<open>
  The values of \<open>config.js\<close> that the modelled functions read; the file is not part of
  the sources, so they are parameters.
\<close>

record config =
  NSFS_FOLDER_OBJECT_NAME :: string
  NSFS_TEMP_DIR_NAME :: string
  NSFS_CHECK_BUCKET_BOUNDARIES :: bool
  NSFS_RENAME_RETRIES :: nat
  NSFS_CALCULATE_MD5 :: bool
  NSFS_VERSIONING_ENABLED :: bool
  NSFS_REMOVE_PARTS_ON_COMPLETE :: bool

text \<open>The fields of a \<open>NamespaceFS\<close> instance.\<close>

record namespace_fs =
  bucket_path :: string
  bucket_id :: string
  access_mode :: string
  versioning :: versioning_status
  force_md5_etag :: bool

definition is_versioning_enabled :: "namespace_fs \<Rightarrow> bool" where
  "is_versioning_enabled ns = (versioning ns = VER_ENABLED)"

definition is_versioning_disabled :: "namespace_fs \<Rightarrow> bool" where
  "is_versioning_disabled ns = (versioning ns = VER_DISABLED)"

definition is_versioning_suspended :: "namespace_fs \<Rightarrow> bool" where
  "is_versioning_suspended ns = (versioning ns = VER_SUSPENDED)"

definition get_bucket_tmpdir :: "config \<Rightarrow> namespace_fs \<Rightarrow> string" where
  "get_bucket_tmpdir cfg ns = NSFS_TEMP_DIR_NAME cfg @ ''_'' @ bucket_id ns"

section \<open>Xattr codec\<close>

text \<open>
  The decoded user metadata: the entries, and the \<open>s3_utils.XATTR_SORT_SYMBOL\<close> tag
  (a symbol-keyed property, kept apart from the string keys).
\<close>

record public_xattr =
  entries :: js_object
  sort_symbol :: bool

definition to_xattr :: "js_object \<Rightarrow> public_xattr" where
  "to_xattr fs_xattr =
     (let xattr = mapKeys fs_xattr (\<lambda>val key.
            if prefix XATTR_USER_PREFIX key \<and> key \<notin> set INTERNAL_XATTR
            then drop (length XATTR_USER_PREFIX) key else []);
          xattr = obj_delete xattr []
      in \<lparr>entries = xattr, sort_symbol = True\<rparr>)"

definition to_fs_xattr :: "js_object option \<Rightarrow> js_object option" where
  "to_fs_xattr xattr =
     (if isEmpty xattr then None
      else Some (mapKeys (the xattr) (\<lambda>val key. XATTR_USER_PREFIX @ key)))"

definition assign_md5_to_fs_xattr :: "string \<Rightarrow> js_object option \<Rightarrow> js_object" where
  "assign_md5_to_fs_xattr md5_digest fs_xattr =
     Object_assign (case fs_xattr of None \<Rightarrow> [] | Some x \<Rightarrow> x) [(XATTR_MD5_KEY, md5_digest)]"

section \<open>Stat, version ids and etags\<close>

text \<open>
  The fields of a native stat that the file reads.  \<open>mtimeNsBigint\<close> is a non-negative
  BigInt and \<open>ino\<close> a non-negative integer; \<open>mtime_ms\<close> is \<open>stat.mtime.getTime()\<close>.
\<close>

record nb_stat =
  ino :: nat
  mtimeNsBigint :: nat
  mtime_ms :: int
  size_bytes :: nat
  xattr :: js_object

text \<open>\<open>n.toString(36)\<close> for a non-negative integer: lowercase digits, no leading zero.\<close>

definition digit36 :: "nat \<Rightarrow> char" where
  "digit36 d = ''0123456789abcdefghijklmnopqrstuvwxyz'' ! d"

function toString36 :: "nat \<Rightarrow> string" where
  "toString36 n = (if n < 36 then [digit36 n] else toString36 (n div 36) @ [digit36 (n mod 36)])"
  by pat_completeness auto
termination
  by (relation "measure id") auto

text \<open>The decimal numeral of a non-negative integer (string concatenation with a number).\<close>

function toString10 :: "nat \<Rightarrow> string" where
  "toString10 n = (if n < 10 then [digit36 n] else toString10 (n div 10) @ [digit36 (n mod 10)])"
  by pat_completeness auto
termination
  by (relation "measure id") auto

declare toString36.simps [simp del] toString10.simps [simp del]

definition get_version_id_by_stat :: "nb_stat \<Rightarrow> string" where
  "get_version_id_by_stat stat =
     ''mtime-'' @ toString36 (mtimeNsBigint stat) @ ''-ino-'' @ toString36 (ino stat)"

definition get_version_id_by_xattr :: "nb_stat \<Rightarrow> string" where
  "get_version_id_by_xattr stat =
     (let v = obj_get (xattr stat) XATTR_VERSION_ID in if truthy v then the v else ''null'')"

definition etag_from_fs_xattr :: "js_object \<Rightarrow> string option" where
  "etag_from_fs_xattr x = (if isEmpty (Some x) then None else obj_get x XATTR_MD5_KEY)"

definition get_etag :: "nb_stat \<Rightarrow> string" where
  "get_etag stat =
     (let xattr_etag = etag_from_fs_xattr (xattr stat)
      in if truthy xattr_etag then the xattr_etag else get_version_id_by_stat stat)"


section \<open>Object info\<close>

text \<open>
  The value of \<open>a && b && c\<close> in \<open>_get_object_info\<close> is a string or the boolean
  \<open>false\<close>.
\<close>

datatype js_value = JS_string string | JS_bool bool | JS_undefined

definition js_truthy :: "js_value \<Rightarrow> bool" where
  "js_truthy v = (case v of JS_string s \<Rightarrow> s \<noteq> [] | JS_bool b \<Rightarrow> b | JS_undefined \<Rightarrow> False)"

datatype encryption_info = AES256

definition get_encryption_info :: "nb_stat \<Rightarrow> encryption_info option" where
  "get_encryption_info stat =
     (if truthy (obj_get (xattr stat) ''gpfs.Encryption'') then Some AES256 else None)"

record object_info =
  oi_obj_id :: string
  oi_bucket :: string
  oi_key :: string
  oi_size :: nat
  oi_etag :: string
  oi_create_time :: int
  oi_content_type :: string
  oi_encryption :: "encryption_info option"
  oi_version_id :: js_value
  oi_is_latest :: bool
  oi_delete_marker :: bool
  oi_xattr :: public_xattr

text \<open>
  \<open>mime.getType\<close> belongs to an external package and is a parameter.  The argument
  \<open>return_version_id\<close> is a string at every call site.
\<close>

definition get_object_info ::
  "(string \<Rightarrow> string option) \<Rightarrow> namespace_fs \<Rightarrow> string \<Rightarrow> string \<Rightarrow> nb_stat \<Rightarrow> string \<Rightarrow> bool
     \<Rightarrow> object_info" where
  "get_object_info mime_getType ns bucket key stat return_version_id is_latest =
     (let etag = get_etag stat;
          create_time = mtime_ms stat;
          encryption = get_encryption_info stat;
          version_id =
            (if return_version_id = [] then JS_string return_version_id
             else if \<not> is_versioning_enabled ns then JS_bool False
             else JS_string (get_version_id_by_xattr stat));
          delete_marker = (obj_get (xattr stat) XATTR_DELETE_MARKER = Some ''true'');
          content_type =
            (let ct = obj_get (xattr stat) XATTR_CONTENT_TYPE in
             if truthy ct then the ct
             else let mt = mime_getType key in
               if truthy mt then the mt else ''application/octet-stream'')
      in \<lparr>oi_obj_id = etag, oi_bucket = bucket, oi_key = key, oi_size = size_bytes stat,
          oi_etag = etag, oi_create_time = create_time, oi_content_type = content_type,
          oi_encryption = encryption, oi_version_id = version_id, oi_is_latest = is_latest,
          oi_delete_marker = delete_marker, oi_xattr = to_xattr (xattr stat)\<rparr>)"

record upload_info =
  ui_etag :: string
  ui_encryption :: "encryption_info option"
  ui_version_id :: "string option"

definition get_upload_info :: "nb_stat \<Rightarrow> string option \<Rightarrow> upload_info" where
  "get_upload_info stat version_id =
     \<lparr>ui_etag = get_etag stat, ui_encryption = get_encryption_info stat,
      ui_version_id = version_id\<rparr>"

section \<open>Errors\<close>

definition translate_object_error_codes :: "js_error \<Rightarrow> js_error" where
  "translate_object_error_codes err =
     (if truthy (err_rpc_code err) then err
      else
        let err = (if err_code err = Some ''ENOENT''
                   then err\<lparr>err_rpc_code := Some ''NO_SUCH_OBJECT''\<rparr> else err);
            err = (if err_code err = Some ''EEXIST''
                   then err\<lparr>err_rpc_code := Some ''BUCKET_ALREADY_EXISTS''\<rparr> else err);
            err = (if err_code err = Some ''EPERM'' \<or> err_code err = Some ''EACCES''
                   then err\<lparr>err_rpc_code := Some ''UNAUTHORIZED''\<rparr> else err);
            err = (if err_code err = Some ''IO_STREAM_ITEM_TIMEOUT''
                   then err\<lparr>err_rpc_code := Some ''IO_STREAM_ITEM_TIMEOUT''\<rparr> else err);
            err = (if err_code err = Some ''INTERNAL_ERROR''
                   then err\<lparr>err_rpc_code := Some ''INTERNAL_ERROR''\<rparr> else err)
        in err)"

definition throw_if_delete_marker :: "namespace_fs \<Rightarrow> nb_stat \<Rightarrow> js_error + unit" where
  "throw_if_delete_marker ns stat =
     (if versioning ns = VER_ENABLED \<or> versioning ns = VER_SUSPENDED
      then let xattr_delete_marker = obj_get (xattr stat) XATTR_DELETE_MARKER
           in if truthy xattr_delete_marker
              then Inl (new_error_code ''ENOENT'' ''Entry is a delete marker'')
              else Inr ()
      else Inr ())"

section \<open>Strings and paths\<close>

text \<open>\<open>str.split(sep)\<close> for a non-empty separator, and \<open>arr.join(sep)\<close>.\<close>

fun split_go :: "string \<Rightarrow> nat \<Rightarrow> string \<Rightarrow> string \<Rightarrow> string list" where
  "split_go sep skip cur [] = [rev cur]"
| "split_go sep skip cur (c # cs) =
     (if 0 < skip then split_go sep (skip - 1) cur cs
      else if prefix sep (c # cs) then rev cur # split_go sep (length sep - 1) [] cs
      else split_go sep 0 (c # cur) cs)"

definition split :: "string \<Rightarrow> string \<Rightarrow> string list" where
  "split s sep = split_go sep 0 [] s"

definition join :: "string list \<Rightarrow> string \<Rightarrow> string" where
  "join xs sep = (case xs of [] \<Rightarrow> [] | y # ys \<Rightarrow> foldl (\<lambda>acc z. acc @ sep @ z) y ys)"

text \<open>\<open>arr[i]\<close>, which is \<open>undefined\<close> past the end.\<close>

definition at_index :: "string list \<Rightarrow> nat \<Rightarrow> string option" where
  "at_index xs i = (if i < length xs then Some (xs ! i) else None)"

text \<open>\<open>str.lastIndexOf(pat)\<close>: the greatest start of an occurrence, or \<open>-1\<close>.\<close>

definition lastIndexOf :: "string \<Rightarrow> string \<Rightarrow> int" where
  "lastIndexOf s pat =
     (case filter (\<lambda>i. take (length pat) (drop i s) = pat) (rev [0..<Suc (length s)]) of
        [] \<Rightarrow> - 1 | i # _ \<Rightarrow> int i)"

text \<open>
  The functions of Node's \<open>path\<close> module (POSIX flavour) that the file calls: \<open>normalize\<close>
  drops empty and \<open>.\<close> segments, resolves \<open>..\<close> against the segment before it and keeps a
  trailing slash; \<open>join\<close> joins its non-empty arguments with a slash and normalizes;
  \<open>dirname\<close> and \<open>basename\<close> ignore trailing slashes.
\<close>

fun normalizeString :: "bool \<Rightarrow> string list \<Rightarrow> string list \<Rightarrow> string list" where
  "normalizeString allowAboveRoot res [] = res"
| "normalizeString allowAboveRoot res (seg # segs) =
     (if seg = [] \<or> seg = ''.'' then normalizeString allowAboveRoot res segs
      else if seg = ''..'' then
        (if res \<noteq> [] \<and> last res \<noteq> ''..'' then normalizeString allowAboveRoot (butlast res) segs
         else if allowAboveRoot then normalizeString allowAboveRoot (res @ [''..'']) segs
         else normalizeString allowAboveRoot res segs)
      else normalizeString allowAboveRoot (res @ [seg]) segs)"

definition path_normalize :: "string \<Rightarrow> string" where
  "path_normalize p =
     (if p = [] then ''.''
      else
        let isAbsolute = (hd p = CHR ''/'');
            trailingSeparator = (last p = CHR ''/'');
            q = join (normalizeString (\<not> isAbsolute) [] (split p ''/'')) ''/''
        in if q = [] then (if isAbsolute then ''/'' else if trailingSeparator then ''./'' else ''.'')
           else (if isAbsolute then ''/'' else []) @ q @ (if trailingSeparator then ''/'' else []))"

definition path_join :: "string list \<Rightarrow> string" where
  "path_join args =
     (let parts = filter (\<lambda>a. a \<noteq> []) args
      in if parts = [] then ''.'' else path_normalize (join parts ''/''))"

definition strip_trailing_slashes :: "string \<Rightarrow> string" where
  "strip_trailing_slashes p = rev (dropWhile (\<lambda>c. c = CHR ''/'') (rev p))"

definition path_basename :: "string \<Rightarrow> string" where
  "path_basename p = rev (takeWhile (\<lambda>c. c \<noteq> CHR ''/'') (rev (strip_trailing_slashes p)))"

definition path_dirname :: "string \<Rightarrow> string" where
  "path_dirname p =
     (if p = [] then ''.''
      else
        let hasRoot = (hd p = CHR ''/'');
            d = rev (dropWhile (\<lambda>c. c \<noteq> CHR ''/'') (rev (strip_trailing_slashes p)))
        in if length d \<le> 1 then (if hasRoot then ''/'' else ''.'')
           else if hasRoot \<and> length d = 2 then ''//''
           else butlast d)"

text \<open>
  Base-36 readers.  \<open>parseInt(s, 36)\<close> reads the longest prefix of digits and letters
  (either case) and is \<open>NaN\<close>, here \<open>None\<close>, when that prefix is empty.
\<close>

definition digit36_val :: "char \<Rightarrow> nat option" where
  "digit36_val c =
     (let n = (of_char c :: nat) in
      if 48 \<le> n \<and> n \<le> 57 then Some (n - 48)
      else if 97 \<le> n \<and> n \<le> 122 then Some (n - 87)
      else if 65 \<le> n \<and> n \<le> 90 then Some (n - 55)
      else None)"

definition digits36 :: "string \<Rightarrow> nat" where
  "digits36 s = foldl (\<lambda>acc c. acc * 36 + (case digit36_val c of None \<Rightarrow> 0 | Some d \<Rightarrow> d)) 0 s"

definition parseInt36 :: "string \<Rightarrow> nat option" where
  "parseInt36 s =
     (let ds = takeWhile (\<lambda>c. digit36_val c \<noteq> None) s
      in if ds = [] then None else Some (digits36 ds))"

text \<open>
  Modelled from the spec: \<open>size_utils.string_to_bigint\<close> is not part of the sources.  The
  spec says of a version id that ``the two fields use lowercase base36''; the model reads
  the string as a base-36 numeral (a character that is no digit counts as 0).
\<close>

definition string_to_bigint36 :: "string \<Rightarrow> nat" where
  "string_to_bigint36 s = digits36 s"

text \<open>The regular expression \<open>version_format = /^[a-z0-9]+$/\<close>; \<open>test(undefined)\<close> tests
  the string \<open>undefined\<close>.\<close>

definition version_format_test :: "string option \<Rightarrow> bool" where
  "version_format_test v =
     (let s = (case v of None \<Rightarrow> ''undefined'' | Some t \<Rightarrow> t)
      in s \<noteq> [] \<and> list_all (\<lambda>c. let n = (of_char c :: nat)
                                  in (48 \<le> n \<and> n \<le> 57) \<or> (97 \<le> n \<and> n \<le> 122)) s)"

section \<open>The filesystem under a bucket\<close>

text \<open>
  The native layer \<open>nb_native().fs\<close> is not part of the sources, so the filesystem is
  an explicit state: the regular files by absolute path, the directories that exist even
  when empty (the bucket roots), and the counters from which the kernel numbers a new
  inode, stamps a modification time and from which \<open>uuidv4()\<close> draws a fresh name.

  Scope of the model.  The backend is POSIX (\<open>_is_gpfs\<close> is false), one request runs at
  a time, and there are no symbolic links.  A directory other than a bucket root exists
  exactly when a file lies below it, so \<open>mkdir\<close> and \<open>rmdir\<close> of empty directories leave
  the state unchanged and directories carry no xattrs: directory objects (keys ending
  in a slash) are outside the model.  A hard link is a second path holding the same file
  record; the modelled functions never change a file while it has two links.
\<close>

record nb_file =
  f_ino :: nat
  f_mtimeNs :: nat
  f_xattr :: js_object
  f_data :: string

record fs_state =
  files :: "(string \<times> nb_file) list"
  dirs :: "string list"
  next_ino :: nat
  clock :: nat
  next_uuid :: nat

type_synonym 'a fsm = "fs_state \<Rightarrow> (js_error + 'a) \<times> fs_state"

definition fs_return :: "'a \<Rightarrow> 'a fsm" where
  "fs_return x = (\<lambda>s. (Inr x, s))"

definition fs_throw :: "js_error \<Rightarrow> 'a fsm" where
  "fs_throw e = (\<lambda>s. (Inl e, s))"

definition fs_bind :: "'a fsm \<Rightarrow> ('a \<Rightarrow> 'b fsm) \<Rightarrow> 'b fsm" where
  "fs_bind m f = (\<lambda>s. case m s of (Inl e, s') \<Rightarrow> (Inl e, s') | (Inr x, s') \<Rightarrow> f x s')"

definition fs_then :: "'a fsm \<Rightarrow> 'b fsm \<Rightarrow> 'b fsm" where
  "fs_then m n = fs_bind m (\<lambda>_. n)"

definition fs_catch :: "'a fsm \<Rightarrow> (js_error \<Rightarrow> 'a fsm) \<Rightarrow> 'a fsm" where
  "fs_catch m h = (\<lambda>s. case m s of (Inl e, s') \<Rightarrow> h e s' | (Inr x, s') \<Rightarrow> (Inr x, s'))"

definition fs_lift :: "js_error + 'a \<Rightarrow> 'a fsm" where
  "fs_lift r = (case r of Inl e \<Rightarrow> fs_throw e | Inr x \<Rightarrow> fs_return x)"

definition stat_of :: "nb_file \<Rightarrow> nb_stat" where
  "stat_of f = \<lparr>ino = f_ino f, mtimeNsBigint = f_mtimeNs f,
               mtime_ms = int (f_mtimeNs f div 1000000), size_bytes = length (f_data f),
               xattr = f_xattr f\<rparr>"

definition dir_exists :: "fs_state \<Rightarrow> string \<Rightarrow> bool" where
  "dir_exists s p =
     (let d = strip_trailing_slashes p
      in d \<in> set (dirs s) \<or> list_ex (\<lambda>q. prefix (d @ ''/'') q) (map fst (files s)))"

definition errno :: "string \<Rightarrow> string \<Rightarrow> js_error" where
  "errno c p = new_error_code c (c @ '' '' @ p)"

text \<open>Modelled from the spec: \<open>stat\<close>, \<open>unlink\<close>, \<open>rename\<close>, \<open>readdir\<close>, \<open>open\<close> in mode
  \<open>w\<close>, \<open>write\<close> and \<open>replacexattr\<close> of the native layer, with their POSIX meaning (the
  spec's error taxonomy names \<open>ENOENT\<close> on a missing target).  The stat of a directory
  has no xattrs.  The option \<open>skip_user_xattr\<close> of \<open>stat\<close> still returns the version
  xattrs that \<open>_get_version_info\<close> reads, so the model ignores it.\<close>

definition native_stat :: "string \<Rightarrow> nb_stat fsm" where
  "native_stat p = (\<lambda>s.
     case obj_get (files s) p of
       Some f \<Rightarrow> (Inr (stat_of f), s)
     | None \<Rightarrow>
         if dir_exists s p
         then (Inr \<lparr>ino = 0, mtimeNsBigint = 0, mtime_ms = 0, size_bytes = 0, xattr = []\<rparr>, s)
         else (Inl (errno ''ENOENT'' p), s))"

definition native_unlink :: "string \<Rightarrow> unit fsm" where
  "native_unlink p = (\<lambda>s.
     case obj_get (files s) p of
       None \<Rightarrow> (Inl (errno ''ENOENT'' p), s)
     | Some f \<Rightarrow> (Inr (), s\<lparr>files := obj_delete (files s) p\<rparr>))"

definition native_rename :: "string \<Rightarrow> string \<Rightarrow> unit fsm" where
  "native_rename src dst = (\<lambda>s.
     case obj_get (files s) src of
       None \<Rightarrow> (Inl (errno ''ENOENT'' src), s)
     | Some f \<Rightarrow> (Inr (), s\<lparr>files := obj_set (obj_delete (files s) src) dst f\<rparr>))"

definition first_segment :: "string \<Rightarrow> string" where
  "first_segment p = takeWhile (\<lambda>c. c \<noteq> CHR ''/'') p"

definition native_readdir :: "string \<Rightarrow> string list fsm" where
  "native_readdir dir = (\<lambda>s.
     if \<not> dir_exists s dir then (Inl (errno ''ENOENT'' dir), s)
     else
       let d = strip_trailing_slashes dir @ ''/'';
           below = filter (prefix d) (map fst (files s))
       in (Inr (remdups (map (\<lambda>q. first_segment (drop (length d) q)) below)), s))"

definition native_open_w :: "string \<Rightarrow> unit fsm" where
  "native_open_w p = (\<lambda>s.
     case obj_get (files s) p of
       Some f \<Rightarrow> (Inr (), s\<lparr>files := obj_set (files s) p (f\<lparr>f_data := [], f_mtimeNs := clock s\<rparr>),
                              clock := Suc (clock s)\<rparr>)
     | None \<Rightarrow>
         (Inr (), s\<lparr>files := obj_set (files s) p
                       \<lparr>f_ino = next_ino s, f_mtimeNs = clock s, f_xattr = [], f_data = []\<rparr>,
                    next_ino := Suc (next_ino s), clock := Suc (clock s)\<rparr>))"

definition file_write :: "string \<Rightarrow> string \<Rightarrow> unit fsm" where
  "file_write p data = (\<lambda>s.
     case obj_get (files s) p of
       None \<Rightarrow> (Inl (errno ''ENOENT'' p), s)
     | Some f \<Rightarrow>
         (Inr (), s\<lparr>files := obj_set (files s) p (f\<lparr>f_data := f_data f @ data, f_mtimeNs := clock s\<rparr>),
                    clock := Suc (clock s)\<rparr>))"

definition file_replacexattr :: "string \<Rightarrow> js_object \<Rightarrow> unit fsm" where
  "file_replacexattr p fs_xattr = (\<lambda>s.
     case obj_get (files s) p of
       None \<Rightarrow> (Inl (errno ''ENOENT'' p), s)
     | Some f \<Rightarrow>
         (Inr (), s\<lparr>files := obj_set (files s) p (f\<lparr>f_xattr := Object_assign (f_xattr f) fs_xattr\<rparr>)\<rparr>))"

definition uuidv4 :: "string fsm" where
  "uuidv4 = (\<lambda>s. (Inr (''uuid-'' @ toString36 (next_uuid s)), s\<lparr>next_uuid := Suc (next_uuid s)\<rparr>))"

text \<open>Modelled from the spec: \<open>safe_link\<close> of the native layer.  ``Linking must fail if
  dst already exists with different identity; on POSIX this is implemented by
  \<open>link(src, dst)\<close> followed by \<open>stat(dst)\<close> and tearing down on mismatch.''  The error of
  a mismatch is the sentinel string the retry predicate looks for.\<close>

definition native_safe_link :: "string \<Rightarrow> string \<Rightarrow> nat \<Rightarrow> nat option \<Rightarrow> unit fsm" where
  "native_safe_link src dst expected_mtime expected_ino = (\<lambda>s.
     case obj_get (files s) src of
       None \<Rightarrow> (Inl (errno ''ENOENT'' src), s)
     | Some f \<Rightarrow>
         if obj_get (files s) dst \<noteq> None then (Inl (errno ''EEXIST'' dst), s)
         else if f_mtimeNs f = expected_mtime \<and> Some (f_ino f) = expected_ino
         then (Inr (), s\<lparr>files := obj_set (files s) dst f\<rparr>)
         else (Inl (new_Error posix_link_retry_err), s))"

text \<open>Modelled from the spec: \<open>safe_unlink\<close> of the native layer.  ``Rename the target
  into a unique quarantine path, verify identity, then unlink the quarantined path; if
  identity mismatches, abort without unlinking the new occupant.''\<close>

definition native_safe_unlink :: "string \<Rightarrow> string \<Rightarrow> nat \<Rightarrow> nat option \<Rightarrow> unit fsm" where
  "native_safe_unlink target quarantine expected_mtime expected_ino = (\<lambda>s.
     case obj_get (files s) target of
       None \<Rightarrow> (Inl (errno ''ENOENT'' target), s)
     | Some f \<Rightarrow>
         if f_mtimeNs f = expected_mtime \<and> Some (f_ino f) = expected_ino
         then (Inr (), s\<lparr>files := obj_delete (files s) target\<rparr>)
         else (Inl (new_Error posix_unlink_retry_err),
               s\<lparr>files := obj_set (obj_delete (files s) target) quarantine f\<rparr>))"

section \<open>Path mapper\<close>

definition get_file_path :: "config \<Rightarrow> namespace_fs \<Rightarrow> string \<Rightarrow> js_error + string" where
  "get_file_path cfg ns key =
     (if sublist ''./'' key then Inl (new_Error (''Bad relative path key '' @ key))
      else
        let p = path_normalize (path_join [bucket_path ns, key])
        in Inr (if suffix ''/'' p then p @ NSFS_FOLDER_OBJECT_NAME cfg else p))"

definition is_directory_content :: "config \<Rightarrow> string \<Rightarrow> string \<Rightarrow> bool" where
  "is_directory_content cfg file_path key =
     ((file_path \<noteq> [] \<and> suffix (NSFS_FOLDER_OBJECT_NAME cfg) file_path) \<and>
      (key \<noteq> [] \<and> suffix ''/'' key))"

definition get_file_md_path :: "config \<Rightarrow> namespace_fs \<Rightarrow> string \<Rightarrow> js_error + string" where
  "get_file_md_path cfg ns key =
     (case get_file_path cfg ns key of
        Inl e \<Rightarrow> Inl e
      | Inr p \<Rightarrow>
          Inr (if is_directory_content cfg p key then path_join [path_dirname p, ''/''] else p))"

definition get_version_path :: "namespace_fs \<Rightarrow> string \<Rightarrow> string option \<Rightarrow> string" where
  "get_version_path ns key version_id =
     (let key_version = path_basename key @ (if truthy version_id then ''_'' @ the version_id else [])
      in path_normalize
           (path_join [bucket_path ns, path_dirname key, HIDDEN_VERSIONS_PATH, key_version]))"

text \<open>With no symbolic links \<open>realpath\<close> returns its argument, and on \<open>ENOENT\<close> the
  recursion to the parent directory ends at the bucket root; what is left of
  \<open>_is_path_in_bucket_boundaries\<close> is the textual check.\<close>

definition is_path_in_bucket_boundaries :: "namespace_fs \<Rightarrow> string \<Rightarrow> bool" where
  "is_path_in_bucket_boundaries ns entry_path = prefix (bucket_path ns) entry_path"

definition check_path_in_bucket_boundaries :: "config \<Rightarrow> namespace_fs \<Rightarrow> string \<Rightarrow> unit fsm" where
  "check_path_in_bucket_boundaries cfg ns entry_path =
     (if \<not> NSFS_CHECK_BUCKET_BOUNDARIES cfg then fs_return ()
      else if \<not> is_path_in_bucket_boundaries ns entry_path
      then fs_throw (new_error_code ''EACCES''
             (''Entry '' @ entry_path @ '' is not in bucket boundaries''))
      else fs_return ())"

text \<open>\<open>object_sdk\<close>, as far as the file reads it: whether the requesting account has an
  \<open>nsfs_account_config\<close>, and the account's \<open>force_md5_etag\<close>.\<close>

record object_sdk =
  nsfs_account_config :: bool
  account_force_md5_etag :: bool

definition prepare_fs_context :: "object_sdk \<Rightarrow> js_error + unit" where
  "prepare_fs_context sdk =
     (if \<not> nsfs_account_config sdk
      then Inl (new_RpcError ''UNAUTHORIZED'' ''nsfs_account_config is missing'')
      else Inr ())"

definition load_bucket :: "namespace_fs \<Rightarrow> unit fsm" where
  "load_bucket ns =
     fs_catch (fs_then (native_stat (bucket_path ns)) (fs_return ()))
       (\<lambda>err. fs_throw (translate_object_error_codes err))"

text \<open>\<open>_make_path_dirs\<close>, \<open>_create_path\<close> and \<open>_delete_path_dirs\<close> create and remove
  empty directories only; in this model of the filesystem they change nothing.\<close>

definition make_path_dirs :: "string \<Rightarrow> unit fsm" where
  "make_path_dirs file_path = fs_return ()"

definition delete_path_dirs :: "string \<Rightarrow> unit fsm" where
  "delete_path_dirs file_path = fs_return ()"

text \<open>\<open>check_access\<close>: false for a path that is missing or out of the bucket, unless the
  path is the bucket root, whose error is thrown.\<close>

definition check_access :: "config \<Rightarrow> namespace_fs \<Rightarrow> string \<Rightarrow> bool fsm" where
  "check_access cfg ns dir_path =
     fs_catch
       (fs_then (check_path_in_bucket_boundaries cfg ns dir_path)
          (fs_then (native_stat dir_path) (fs_return True)))
       (\<lambda>err.
          let is_bucket_dir = (dir_path = bucket_path ns) in
          if (err_code err = Some ''EPERM'' \<or> err_code err = Some ''EACCES'') \<and> \<not> is_bucket_dir
          then fs_return False
          else if err_code err = Some ''ENOENT'' \<and> \<not> is_bucket_dir then fs_return False
          else fs_throw err)"

section \<open>Version info\<close>

record version_info =
  vi_mtimeNsBigint :: nat
  vi_ino :: "nat option"
  version_id_str :: string
  vi_delete_marker :: "string option"
  vi_prev_version_id :: "string option"
  vi_path :: string
  vi_latest :: bool

definition get_version_id_by_mode :: "namespace_fs \<Rightarrow> nb_stat \<Rightarrow> js_error + string" where
  "get_version_id_by_mode ns stat =
     (if is_versioning_enabled ns then Inr (get_version_id_by_stat stat)
      else if is_versioning_suspended ns then Inr NULL_VERSION_ID
      else Inl (new_Error ''_get_version_id_by_mode: Invalid versioning mode''))"

definition extract_version_info_from_xattr :: "string \<Rightarrow> js_error + (nat \<times> nat option) option" where
  "extract_version_info_from_xattr v =
     (if v = ''null'' then Inr None
      else
        let arr = split (join (split v ''mtime-'') []) ''-ino-''
        in if length arr < 2
           then Inl (new_Error ''Invalid version_id_string, cannot extract version info'')
           else Inr (Some (string_to_bigint36 (arr ! 0), parseInt36 (arr ! 1))))"

definition get_version_info :: "string \<Rightarrow> version_info option fsm" where
  "get_version_info version_path =
     fs_catch
       (fs_bind (native_stat version_path) (\<lambda>stat.
          let v = get_version_id_by_xattr stat in
          fs_bind (fs_lift (extract_version_info_from_xattr v)) (\<lambda>ver_info_by_xattr.
            let ids = (case ver_info_by_xattr of
                         Some mi \<Rightarrow> mi
                       | None \<Rightarrow> (mtimeNsBigint stat, Some (ino stat)))
            in fs_return (Some
                 \<lparr>vi_mtimeNsBigint = fst ids, vi_ino = snd ids, version_id_str = v,
                  vi_delete_marker = obj_get (xattr stat) XATTR_DELETE_MARKER,
                  vi_prev_version_id = obj_get (xattr stat) XATTR_PREV_VERSION_ID,
                  vi_path = version_path, vi_latest = False\<rparr>))))
       (\<lambda>err. if err_code err \<noteq> Some ''ENOENT'' then fs_throw err else fs_return None)"

definition throw_if_wrong_version_format :: "string \<Rightarrow> js_error + unit" where
  "throw_if_wrong_version_format version_id =
     (if version_id = ''null'' then Inr ()
      else
        let v_parts = split version_id ''-''
        in if at_index v_parts 0 \<noteq> Some ''mtime'' \<or> at_index v_parts 2 \<noteq> Some ''ino''
           then Inl (new_RpcError ''BAD_REQUEST'' ''Bad Request'')
           else if \<not> version_format_test (at_index v_parts 1) \<or>
                   \<not> version_format_test (at_index v_parts 3)
           then Inl (new_RpcError ''BAD_REQUEST'' ''Bad Request'')
           else Inr ())"

definition find_version_path ::
  "config \<Rightarrow> namespace_fs \<Rightarrow> string \<Rightarrow> string option \<Rightarrow> bool \<Rightarrow> string fsm" where
  "find_version_path cfg ns key version_id return_md_path =
     fs_bind (fs_lift (if return_md_path then get_file_md_path cfg ns key
                       else get_file_path cfg ns key)) (\<lambda>cur_ver_path.
       if \<not> truthy version_id then fs_return cur_ver_path
       else
         fs_then (fs_lift (throw_if_wrong_version_format (the version_id)))
           (fs_bind (get_version_info cur_ver_path) (\<lambda>cur_ver_info.
              if cur_ver_info \<noteq> None \<and> version_id_str (the cur_ver_info) = the version_id
              then fs_return cur_ver_path
              else fs_return (get_version_path ns key version_id))))"

section \<open>Safe link, unlink and move (POSIX)\<close>

definition type_error_undefined :: js_error where
  "type_error_undefined = new_Error ''TypeError: Cannot read properties of undefined''"

definition safe_link_posix :: "string \<Rightarrow> string \<Rightarrow> version_info option \<Rightarrow> unit fsm" where
  "safe_link_posix src_path dst_path src_version_info =
     (case src_version_info of
        None \<Rightarrow> fs_throw type_error_undefined
      | Some vi \<Rightarrow> native_safe_link src_path dst_path (vi_mtimeNsBigint vi) (vi_ino vi))"

definition generate_unique_path :: "config \<Rightarrow> namespace_fs \<Rightarrow> string fsm" where
  "generate_unique_path cfg ns =
     fs_bind uuidv4 (\<lambda>rand_id.
       let unique_temp_path =
             path_join [bucket_path ns, get_bucket_tmpdir cfg ns, ''lost+found'', rand_id]
       in fs_then (make_path_dirs unique_temp_path) (fs_return unique_temp_path))"

definition safe_unlink_posix ::
  "config \<Rightarrow> namespace_fs \<Rightarrow> string \<Rightarrow> version_info option \<Rightarrow> unit fsm" where
  "safe_unlink_posix cfg ns to_delete_path to_delete_version_info =
     fs_catch
       (fs_bind (generate_unique_path cfg ns) (\<lambda>unique_temp_path.
          case to_delete_version_info of
            None \<Rightarrow> fs_throw type_error_undefined
          | Some vi \<Rightarrow>
              native_safe_unlink to_delete_path unique_temp_path (vi_mtimeNsBigint vi) (vi_ino vi)))
       (\<lambda>err. if err_code err = Some ''ENOENT'' then fs_return () else fs_throw err)"

definition safe_move_posix ::
  "config \<Rightarrow> namespace_fs \<Rightarrow> string \<Rightarrow> string \<Rightarrow> version_info option \<Rightarrow> unit fsm" where
  "safe_move_posix cfg ns src_path dst_path src_ver_info =
     fs_then (safe_link_posix src_path dst_path src_ver_info)
       (safe_unlink_posix cfg ns src_path src_ver_info)"

definition safe_move ::
  "config \<Rightarrow> namespace_fs \<Rightarrow> string \<Rightarrow> string \<Rightarrow> version_info option \<Rightarrow> unit fsm" where
  "safe_move cfg ns src_path dst_path src_ver_info =
     safe_move_posix cfg ns src_path dst_path src_ver_info"

definition safe_unlink ::
  "config \<Rightarrow> namespace_fs \<Rightarrow> string \<Rightarrow> version_info option \<Rightarrow> unit fsm" where
  "safe_unlink cfg ns src_path src_ver_info = safe_unlink_posix cfg ns src_path src_ver_info"

definition should_retry_link_unlink :: "js_error \<Rightarrow> bool" where
  "should_retry_link_unlink err =
     (err_message err = posix_link_retry_err \<or> err_message err = posix_unlink_retry_err)"

section \<open>Version lookup in \<open>.versions/\<close>\<close>

fun fs_map :: "('a \<Rightarrow> 'b fsm) \<Rightarrow> 'a list \<Rightarrow> 'b list fsm" where
  "fs_map f [] = fs_return []"
| "fs_map f (x # xs) = fs_bind (f x) (\<lambda>y. fs_bind (fs_map f xs) (\<lambda>ys. fs_return (y # ys)))"

text \<open>The callback that \<open>find_max_version_past\<close> maps over the directory entries.\<close>

definition version_entry_mtime ::
  "string \<Rightarrow> string \<Rightarrow> string \<Rightarrow> (nat \<times> string) option fsm" where
  "version_entry_mtime versions_dir key name =
     (let index = (if suffix ''_null'' name then lastIndexOf name ''_null''
                   else lastIndexOf name ''_mtime-'')
      in if index < 0 \<or> take (nat index) name \<noteq> key then fs_return None
         else
           fs_bind (fs_lift (extract_version_info_from_xattr (drop (length key + 1) name)))
             (\<lambda>by_name.
                case by_name of
                  Some mi \<Rightarrow> fs_return (Some (fst mi, name))
                | None \<Rightarrow>
                    fs_bind (get_version_info (path_join [versions_dir, name])) (\<lambda>info.
                      case info of
                        None \<Rightarrow> fs_throw type_error_undefined
                      | Some vi \<Rightarrow> fs_return (Some (vi_mtimeNsBigint vi, name)))))"

definition max_entry_info :: "(nat \<times> string) option list \<Rightarrow> nat \<times> string option" where
  "max_entry_info arr =
     foldl (\<lambda>acc cur. case cur of
                         None \<Rightarrow> acc
                       | Some c \<Rightarrow> if fst c > fst acc then (fst c, Some (snd c)) else acc)
       (0, None) arr"

definition find_max_version_past :: "namespace_fs \<Rightarrow> string \<Rightarrow> version_info option fsm" where
  "find_max_version_past ns key =
     (let versions_dir =
            path_normalize (path_join [bucket_path ns, path_dirname key, HIDDEN_VERSIONS_PATH])
      in fs_catch
           (fs_bind (native_readdir versions_dir) (\<lambda>versions.
              fs_bind (fs_map (version_entry_mtime versions_dir key) versions) (\<lambda>arr.
                let m = max_entry_info arr
                in if fst m > 0 then get_version_info (path_join [versions_dir, the (snd m)])
                   else fs_return None)))
           (\<lambda>err. fs_return None))"

definition get_prev_version_info :: "namespace_fs \<Rightarrow> string \<Rightarrow> string \<Rightarrow> version_info option fsm" where
  "get_prev_version_info ns key prev_version_id =
     get_version_info (get_version_path ns key (Some prev_version_id))"

definition assign_versions_to_fs_xattr ::
  "namespace_fs \<Rightarrow> version_info option \<Rightarrow> nb_stat \<Rightarrow> string \<Rightarrow> js_object option \<Rightarrow> bool
     \<Rightarrow> js_object fsm" where
  "assign_versions_to_fs_xattr ns prev_ver_info new_ver_stat key fs_xattr delete_marker =
     fs_bind (if prev_ver_info = None then find_max_version_past ns key
              else fs_return prev_ver_info) (\<lambda>prev_ver_info.
       fs_bind (fs_lift (get_version_id_by_mode ns new_ver_stat)) (\<lambda>version_id.
         let fs_xattr = Object_assign (case fs_xattr of None \<Rightarrow> [] | Some x \<Rightarrow> x)
                          [(XATTR_VERSION_ID, version_id)];
             fs_xattr = (case prev_ver_info of
                           None \<Rightarrow> fs_xattr
                         | Some p \<Rightarrow> obj_set fs_xattr XATTR_PREV_VERSION_ID (version_id_str p));
             fs_xattr = (if delete_marker then obj_set fs_xattr XATTR_DELETE_MARKER ''true''
                         else fs_xattr)
         in fs_return fs_xattr))"

section \<open>Upload pipeline\<close>

text \<open>
  The parameters of \<open>upload_object\<close> that the model reads.  \<open>md5_hex\<close> stands for the
  hex form of the client's \<open>md5_b64\<close>, \<open>encryption_AES256\<close> for a request of SSE-S3
  encryption, \<open>source_stream\<close> for the bytes the stream delivers.  There is no
  \<open>copy_source\<close>: server-side copy is outside the model.
\<close>

record upload_object_params =
  up_bucket :: string
  up_key :: string
  up_xattr :: "js_object option"
  up_content_type :: "string option"
  up_md5_hex :: "string option"
  up_encryption_AES256 :: bool
  up_size :: "nat option"
  up_source_stream :: string

definition verify_encryption :: "bool \<Rightarrow> encryption_info option \<Rightarrow> js_error + unit" where
  "verify_encryption user_AES256 fs_encryption =
     (if user_AES256 \<and> fs_encryption = None
      then Inl (new_RpcError ''SERVER_SIDE_ENCRYPTION_CONFIGURATION_NOT_FOUND_ERROR''
                  ''Encryption not supported by the FileSystem'')
      else Inr ())"

definition md5_enabled :: "config \<Rightarrow> namespace_fs \<Rightarrow> object_sdk \<Rightarrow> bool" where
  "md5_enabled cfg ns sdk =
     (NSFS_CALCULATE_MD5 cfg \<or> (force_md5_etag ns \<or> account_force_md5_etag sdk))"

text \<open>Lowercase hex of a byte string (\<open>buf.toString('hex')\<close>) and its reader
  \<open>Buffer.from(s, 'hex')\<close>, which stops at the first pair that is not two hex digits.\<close>

definition hex_digit :: "nat \<Rightarrow> char" where
  "hex_digit d = ''0123456789abcdef'' ! d"

definition hex_encode :: "string \<Rightarrow> string" where
  "hex_encode bytes =
     concat (map (\<lambda>c. [hex_digit ((of_char c :: nat) div 16), hex_digit ((of_char c :: nat) mod 16)])
               bytes)"

definition hex_val :: "char \<Rightarrow> nat option" where
  "hex_val c = (case digit36_val c of Some d \<Rightarrow> if d < 16 then Some d else None | None \<Rightarrow> None)"

fun hex_decode :: "string \<Rightarrow> string" where
  "hex_decode (a # b # cs) =
     (case (hex_val a, hex_val b) of
        (Some x, Some y) \<Rightarrow> char_of (x * 16 + y) # hex_decode cs
      | _ \<Rightarrow> [])"
| "hex_decode _ = []"

text \<open>Modelled from the spec: \<open>ChunkFS\<close> is not part of the sources.  It is the ``chunk
  writer with optional incremental md5'': it writes the stream to the target file and its
  \<open>digest\<close> is the hex md5 of the bytes when md5 is enabled.  The hash function itself is
  the parameter \<open>md5\<close>.\<close>

definition upload_stream ::
  "(string \<Rightarrow> string) \<Rightarrow> config \<Rightarrow> namespace_fs \<Rightarrow> object_sdk \<Rightarrow> string \<Rightarrow> string
     \<Rightarrow> string option fsm" where
  "upload_stream md5 cfg ns sdk target_file source_stream =
     fs_then (file_write target_file source_stream)
       (fs_return (if md5_enabled cfg ns sdk then Some (hex_encode (md5 source_stream)) else None))"

text \<open>\<open>_start_upload\<close> for open mode \<open>w\<close>: the staging path, created empty.  The handle
  \<open>target_file\<close> is the staging path.\<close>

definition start_upload :: "config \<Rightarrow> namespace_fs \<Rightarrow> string fsm" where
  "start_upload cfg ns =
     fs_bind uuidv4 (\<lambda>upload_id.
       let upload_path = path_join [bucket_path ns, get_bucket_tmpdir cfg ns, ''uploads'', upload_id]
       in fs_then (make_path_dirs upload_path)
            (fs_then (native_open_w upload_path) (fs_return upload_path)))"

text \<open>\<open>set_fs_xattr_op\<close>: opens the path and replaces its xattrs, clearing those with the
  prefix \<open>clear\<close> first.  On a directory of the model nothing is stored.\<close>

definition set_fs_xattr_op :: "string \<Rightarrow> js_object option \<Rightarrow> string option \<Rightarrow> unit fsm" where
  "set_fs_xattr_op file_path set_xattr clear = (\<lambda>s.
     case obj_get (files s) file_path of
       Some f \<Rightarrow>
         let kept = (case clear of
                       None \<Rightarrow> f_xattr f
                     | Some pre \<Rightarrow> filter (\<lambda>kv. \<not> prefix pre (fst kv)) (f_xattr f));
             new_xattr = Object_assign kept (case set_xattr of None \<Rightarrow> [] | Some x \<Rightarrow> x)
         in (Inr (), s\<lparr>files := obj_set (files s) file_path (f\<lparr>f_xattr := new_xattr\<rparr>)\<rparr>)
     | None \<Rightarrow>
         if dir_exists s file_path then (Inr (), s)
         else (Inl (translate_object_error_codes (errno ''ENOENT'' file_path)), s))"

definition assign_dir_content_to_xattr ::
  "config \<Rightarrow> namespace_fs \<Rightarrow> js_object option \<Rightarrow> string \<Rightarrow> nat option \<Rightarrow> unit fsm" where
  "assign_dir_content_to_xattr cfg ns fs_xattr key sz =
     fs_bind (fs_lift (get_file_md_path cfg ns key)) (\<lambda>dir_path.
       let fs_xattr = Object_assign (case fs_xattr of None \<Rightarrow> [] | Some x \<Rightarrow> x)
                        [(XATTR_DIR_CONTENT, case sz of None \<Rightarrow> ''0'' | Some n \<Rightarrow> toString10 n)]
       in set_fs_xattr_op dir_path (Some fs_xattr) (Some XATTR_USER_PREFIX))"

text \<open>The first part of the xattr handling of \<open>_finish_upload\<close>: the user metadata, the
  content type, and the md5 digest.  A declared md5 that differs from the digest is an
  error.\<close>

definition finish_upload_xattr ::
  "upload_object_params \<Rightarrow> string option \<Rightarrow> js_error + js_object option" where
  "finish_upload_xattr params digest =
     (let fs_xattr = to_fs_xattr (up_xattr params);
          fs_xattr = (if truthy (up_content_type params)
                      then Some (obj_set (case fs_xattr of None \<Rightarrow> [] | Some x \<Rightarrow> x)
                                   XATTR_CONTENT_TYPE (the (up_content_type params)))
                      else fs_xattr)
      in if truthy digest then
           (if truthy (up_md5_hex params) \<and> the (up_md5_hex params) \<noteq> the digest
            then Inl (new_Error ''_upload_stream mismatch etag'')
            else Inr (Some (assign_md5_to_fs_xattr (the digest) fs_xattr)))
         else Inr fs_xattr)"

section \<open>Atomic publish\<close>

text \<open>
  A retry loop \<open>for (;;) { try { ...; break } catch (err) { retries -= 1; if (retries <= 0
  || ...) throw err } }\<close> is a recursion on the number of retries that are left after the
  decrement: with none left the error of the attempt is thrown, otherwise the handler
  decides.  It starts at \<open>NSFS_RENAME_RETRIES - 1\<close>.
\<close>

definition delete_null_version_attempt :: "config \<Rightarrow> namespace_fs \<Rightarrow> string \<Rightarrow> unit fsm" where
  "delete_null_version_attempt cfg ns null_versioned_path =
     fs_bind (get_version_info null_versioned_path) (\<lambda>null_versioned_path_info.
       if null_versioned_path_info \<noteq> None
       then safe_unlink cfg ns null_versioned_path null_versioned_path_info
       else fs_return ())"

fun delete_null_version_loop :: "nat \<Rightarrow> config \<Rightarrow> namespace_fs \<Rightarrow> string \<Rightarrow> unit fsm" where
  "delete_null_version_loop 0 cfg ns p = delete_null_version_attempt cfg ns p"
| "delete_null_version_loop (Suc n) cfg ns p =
     fs_catch (delete_null_version_attempt cfg ns p)
       (\<lambda>err. if \<not> should_retry_link_unlink err then fs_throw err
              else delete_null_version_loop n cfg ns p)"

definition delete_null_version_from_versions_directory ::
  "config \<Rightarrow> namespace_fs \<Rightarrow> string \<Rightarrow> unit fsm" where
  "delete_null_version_from_versions_directory cfg ns key =
     (let null_versioned_path = get_version_path ns key (Some NULL_VERSION_ID)
      in fs_then (check_path_in_bucket_boundaries cfg ns null_versioned_path)
           (delete_null_version_loop (NSFS_RENAME_RETRIES cfg - 1) cfg ns null_versioned_path))"

definition move_to_dest_version_attempt ::
  "config \<Rightarrow> namespace_fs \<Rightarrow> string \<Rightarrow> string \<Rightarrow> string \<Rightarrow> unit fsm" where
  "move_to_dest_version_attempt cfg ns new_ver_tmp_path latest_ver_path key =
     fs_bind (get_version_info new_ver_tmp_path) (\<lambda>new_ver_info.
     fs_bind (get_version_info latest_ver_path) (\<lambda>latest_ver_info.
       let versioned_path =
             (case latest_ver_info of
                None \<Rightarrow> None
              | Some l \<Rightarrow> Some (get_version_path ns key (Some (version_id_str l))))
       in
       fs_bind (case versioned_path of
                  None \<Rightarrow> fs_return None
                | Some vp \<Rightarrow> get_version_info vp) (\<lambda>versioned_info.
       fs_then
         (if is_versioning_suspended ns then
            (if latest_ver_info \<noteq> None \<and> version_id_str (the latest_ver_info) = NULL_VERSION_ID
             then safe_unlink cfg ns latest_ver_path latest_ver_info
             else delete_null_version_from_versions_directory cfg ns key)
          else fs_return ())
         (fs_then
            (if latest_ver_info \<noteq> None \<and>
                (is_versioning_enabled ns \<or>
                 (is_versioning_suspended ns \<and>
                  version_id_str (the latest_ver_info) \<noteq> NULL_VERSION_ID))
             then fs_then (make_path_dirs (the versioned_path))
                    (safe_move cfg ns latest_ver_path (the versioned_path) latest_ver_info)
             else fs_return ())
            (fs_catch (safe_move cfg ns new_ver_tmp_path latest_ver_path new_ver_info)
               (\<lambda>err. if err_message err \<noteq> posix_unlink_retry_err \<and>
                          err_code err \<noteq> Some ''GPFS_UNLINK_RETRY''
                       then fs_throw err else fs_return ()))))))"

fun move_to_dest_version_loop ::
  "nat \<Rightarrow> config \<Rightarrow> namespace_fs \<Rightarrow> string \<Rightarrow> string \<Rightarrow> string \<Rightarrow> unit fsm" where
  "move_to_dest_version_loop 0 cfg ns new_ver_tmp_path latest_ver_path key =
     move_to_dest_version_attempt cfg ns new_ver_tmp_path latest_ver_path key"
| "move_to_dest_version_loop (Suc n) cfg ns new_ver_tmp_path latest_ver_path key =
     fs_catch (move_to_dest_version_attempt cfg ns new_ver_tmp_path latest_ver_path key)
       (\<lambda>err. if \<not> should_retry_link_unlink err then fs_throw err
              else move_to_dest_version_loop n cfg ns new_ver_tmp_path latest_ver_path key)"

definition move_to_dest_version ::
  "config \<Rightarrow> namespace_fs \<Rightarrow> string \<Rightarrow> string \<Rightarrow> string \<Rightarrow> unit fsm" where
  "move_to_dest_version cfg ns new_ver_tmp_path latest_ver_path key =
     move_to_dest_version_loop (NSFS_RENAME_RETRIES cfg - 1) cfg ns
       new_ver_tmp_path latest_ver_path key"

definition move_to_dest_attempt ::
  "config \<Rightarrow> namespace_fs \<Rightarrow> string \<Rightarrow> string \<Rightarrow> string \<Rightarrow> unit fsm" where
  "move_to_dest_attempt cfg ns source_path dest_path key =
     fs_then (make_path_dirs dest_path)
       (if is_versioning_disabled ns then native_rename source_path dest_path
        else move_to_dest_version cfg ns source_path dest_path key)"

fun move_to_dest_loop ::
  "nat \<Rightarrow> config \<Rightarrow> namespace_fs \<Rightarrow> string \<Rightarrow> string \<Rightarrow> string \<Rightarrow> unit fsm" where
  "move_to_dest_loop 0 cfg ns source_path dest_path key =
     move_to_dest_attempt cfg ns source_path dest_path key"
| "move_to_dest_loop (Suc n) cfg ns source_path dest_path key =
     fs_catch (move_to_dest_attempt cfg ns source_path dest_path key)
       (\<lambda>err. if err_code err \<noteq> Some ''ENOENT'' then fs_throw err
              else fs_bind (if source_path \<noteq> [] then check_access cfg ns source_path
                            else fs_return True) (\<lambda>ok.
                     if source_path \<noteq> [] \<and> \<not> ok then fs_throw err
                     else move_to_dest_loop n cfg ns source_path dest_path key))"

definition move_to_dest ::
  "config \<Rightarrow> namespace_fs \<Rightarrow> string \<Rightarrow> string \<Rightarrow> string \<Rightarrow> unit fsm" where
  "move_to_dest cfg ns source_path dest_path key =
     move_to_dest_loop (NSFS_RENAME_RETRIES cfg - 1) cfg ns source_path dest_path key"

text \<open>\<open>_finish_upload\<close> without a copy source.  A part upload (\<open>file_path\<close> equal to
  \<open>upload_path\<close>) gets no version xattrs and is not moved.\<close>

definition finish_upload ::
  "config \<Rightarrow> namespace_fs \<Rightarrow> upload_object_params \<Rightarrow> string \<Rightarrow> string \<Rightarrow> string option
     \<Rightarrow> upload_info fsm" where
  "finish_upload cfg ns params upload_path file_path digest =
     (let part_upload = (file_path = upload_path);
          is_dir_content = is_directory_content cfg file_path (up_key params)
      in
      fs_bind (native_stat upload_path) (\<lambda>stat.
      fs_then (fs_lift (verify_encryption (up_encryption_AES256 params) (get_encryption_info stat)))
      (fs_bind (fs_lift (finish_upload_xattr params digest)) (\<lambda>fs_xattr.
      fs_bind
        (if \<not> part_upload \<and> (is_versioning_enabled ns \<or> is_versioning_suspended ns)
         then fs_bind (get_version_info file_path) (\<lambda>cur_ver_info.
                fs_bind (assign_versions_to_fs_xattr ns cur_ver_info stat (up_key params)
                           fs_xattr False) (\<lambda>x. fs_return (Some x)))
         else fs_return fs_xattr) (\<lambda>fs_xattr.
      fs_then
        (if fs_xattr \<noteq> None \<and> \<not> is_dir_content
         then file_replacexattr upload_path (the fs_xattr) else fs_return ())
      (fs_then
        (if \<not> part_upload
         then move_to_dest cfg ns upload_path file_path (up_key params) else fs_return ())
      (fs_then
        (if is_dir_content
         then assign_dir_content_to_xattr cfg ns fs_xattr (up_key params)
                (Some (size_bytes stat))
         else fs_return ())
      (fs_bind (native_stat file_path) (\<lambda>stat.
         fs_return (get_upload_info stat
           (case fs_xattr of None \<Rightarrow> None | Some x \<Rightarrow> obj_get x XATTR_VERSION_ID)))))))))))"

definition empty_dir_content_flow :: "config \<Rightarrow> string \<Rightarrow> upload_object_params \<Rightarrow> bool" where
  "empty_dir_content_flow cfg file_path params =
     (is_directory_content cfg file_path (up_key params) \<and> up_size params = Some 0)"

definition create_empty_dir_content ::
  "config \<Rightarrow> namespace_fs \<Rightarrow> upload_object_params \<Rightarrow> string \<Rightarrow> upload_info fsm" where
  "create_empty_dir_content cfg ns params file_path =
     fs_then (make_path_dirs file_path)
       (let fs_xattr = to_fs_xattr (up_xattr params) in
        fs_then (assign_dir_content_to_xattr cfg ns fs_xattr (up_key params) (up_size params))
          (fs_then
             (fs_catch (native_unlink file_path)
                (\<lambda>err. if err_code err \<noteq> Some ''ENOENT'' then fs_throw err else fs_return ()))
             (fs_bind (fs_lift (get_file_md_path cfg ns (up_key params))) (\<lambda>dir_path.
                fs_bind (native_stat dir_path) (\<lambda>stat.
                  fs_return (get_upload_info stat
                    (case fs_xattr of None \<Rightarrow> None
                     | Some x \<Rightarrow> obj_get (Object_assign x
                         [(XATTR_DIR_CONTENT, case up_size params of None \<Rightarrow> ''0''
                                              | Some n \<Rightarrow> toString10 n)]) XATTR_VERSION_ID)))))))"

definition upload_object ::
  "(string \<Rightarrow> string) \<Rightarrow> config \<Rightarrow> namespace_fs \<Rightarrow> object_sdk \<Rightarrow> upload_object_params
     \<Rightarrow> upload_info fsm" where
  "upload_object md5 cfg ns sdk params =
     fs_then (fs_lift (prepare_fs_context sdk))
       (fs_then (load_bucket ns)
          (fs_bind (fs_lift (get_file_path cfg ns (up_key params))) (\<lambda>file_path.
             fs_catch
               (fs_then (check_path_in_bucket_boundaries cfg ns file_path)
                  (if empty_dir_content_flow cfg file_path params
                   then create_empty_dir_content cfg ns params file_path
                   else
                     fs_bind (start_upload cfg ns) (\<lambda>upload_path.
                       fs_bind (upload_stream md5 cfg ns sdk upload_path (up_source_stream params))
                         (\<lambda>digest. finish_upload cfg ns params upload_path file_path digest))))
               (\<lambda>err. fs_throw (translate_object_error_codes err)))))"

section \<open>Version lifecycle: delete and promote\<close>

text \<open>
  What a delete returns: \<open>{}\<close>, \<open>{ key }\<close>, \<open>{ deleted_delete_marker, version_id }\<close>
  (the second is absent in \<open>_delete_objects_versioned\<close>),
  \<open>{ created_delete_marker: true, created_version_id }\<close> or \<open>{ err_code, err_message }\<close>.
\<close>

datatype delete_result =
    Res_empty
  | Res_key string
  | Res_deleted "string option" "string option"
  | Res_created "string option"
  | Res_error "string option" string

definition delete_single_object_versioned_attempt ::
  "config \<Rightarrow> namespace_fs \<Rightarrow> string \<Rightarrow> string \<Rightarrow> string option \<Rightarrow> version_info option fsm" where
  "delete_single_object_versioned_attempt cfg ns latest_version_path key version_id =
     fs_bind (find_version_path cfg ns key version_id False) (\<lambda>file_path.
     fs_then (check_path_in_bucket_boundaries cfg ns file_path)
     (fs_bind (get_version_info file_path) (\<lambda>version_info.
        if version_info = None then fs_return None
        else
          let deleted_latest = (file_path = latest_version_path) in
          if deleted_latest
          then fs_then (safe_unlink cfg ns file_path version_info)
                 (fs_return (Some ((the version_info)\<lparr>vi_latest := True\<rparr>)))
          else fs_then (native_unlink file_path) (fs_return version_info))))"

fun delete_single_object_versioned_loop ::
  "nat \<Rightarrow> config \<Rightarrow> namespace_fs \<Rightarrow> string \<Rightarrow> string \<Rightarrow> string option
     \<Rightarrow> version_info option fsm" where
  "delete_single_object_versioned_loop 0 cfg ns latest_version_path key version_id =
     delete_single_object_versioned_attempt cfg ns latest_version_path key version_id"
| "delete_single_object_versioned_loop (Suc n) cfg ns latest_version_path key version_id =
     fs_catch (delete_single_object_versioned_attempt cfg ns latest_version_path key version_id)
       (\<lambda>err. if \<not> should_retry_link_unlink err then fs_throw err
              else delete_single_object_versioned_loop n cfg ns latest_version_path key version_id)"

definition delete_single_object_versioned ::
  "config \<Rightarrow> namespace_fs \<Rightarrow> string \<Rightarrow> string option \<Rightarrow> version_info option fsm" where
  "delete_single_object_versioned cfg ns key version_id =
     fs_bind (fs_lift (get_file_path cfg ns key)) (\<lambda>latest_version_path.
       delete_single_object_versioned_loop (NSFS_RENAME_RETRIES cfg - 1) cfg ns
         latest_version_path key version_id)"

definition promote_version_to_latest_attempt ::
  "config \<Rightarrow> namespace_fs \<Rightarrow> string \<Rightarrow> version_info option \<Rightarrow> string \<Rightarrow> string option
     \<Rightarrow> unit fsm" where
  "promote_version_to_latest_attempt cfg ns key deleted_version_info latest_ver_path
       prev_version_id =
     fs_bind (get_version_info latest_ver_path) (\<lambda>latest_version_info.
       if latest_version_info \<noteq> None then fs_return ()
       else
         fs_bind
           (fs_bind (if truthy prev_version_id
                     then get_prev_version_info ns key (the prev_version_id)
                     else fs_return None) (\<lambda>by_prev.
              if by_prev \<noteq> None then fs_return by_prev
              else find_max_version_past ns key)) (\<lambda>max_past_ver_info.
           if max_past_ver_info = None \<or> truthy (vi_delete_marker (the max_past_ver_info))
           then fs_return ()
           else if deleted_version_info \<noteq> None \<and>
                   truthy (vi_delete_marker (the deleted_version_info)) \<and>
                   vi_mtimeNsBigint (the deleted_version_info) <
                     vi_mtimeNsBigint (the max_past_ver_info)
           then fs_return ()
           else safe_move_posix cfg ns (vi_path (the max_past_ver_info)) latest_ver_path
                  max_past_ver_info))"

fun promote_version_to_latest_loop ::
  "nat \<Rightarrow> config \<Rightarrow> namespace_fs \<Rightarrow> string \<Rightarrow> version_info option \<Rightarrow> string \<Rightarrow> string option
     \<Rightarrow> unit fsm" where
  "promote_version_to_latest_loop 0 cfg ns key deleted latest_ver_path prev_version_id =
     promote_version_to_latest_attempt cfg ns key deleted latest_ver_path prev_version_id"
| "promote_version_to_latest_loop (Suc n) cfg ns key deleted latest_ver_path prev_version_id =
     fs_catch
       (promote_version_to_latest_attempt cfg ns key deleted latest_ver_path prev_version_id)
       (\<lambda>err. if err_code err = Some ''EEXIST'' then fs_return ()
              else if err_code err \<noteq> Some ''ENOENT'' then fs_throw err
              else promote_version_to_latest_loop n cfg ns key deleted latest_ver_path
                     prev_version_id)"

definition promote_version_to_latest ::
  "config \<Rightarrow> namespace_fs \<Rightarrow> string \<Rightarrow> version_info option \<Rightarrow> string \<Rightarrow> unit fsm" where
  "promote_version_to_latest cfg ns key deleted_version_info latest_ver_path =
     (let deleted_latest = (deleted_version_info \<noteq> None \<and>
                            vi_path (the deleted_version_info) = latest_ver_path);
          prev_version_id = (if deleted_latest
                             then vi_prev_version_id (the deleted_version_info) else None)
      in promote_version_to_latest_loop (NSFS_RENAME_RETRIES cfg - 1) cfg ns key
           deleted_version_info latest_ver_path prev_version_id)"

text \<open>One attempt of \<open>_create_delete_marker\<close>.  The variable \<open>delete_marker_version_id\<close>
  outlives the attempt (the \<open>catch\<close> returns it on \<open>EEXIST\<close>), so a failed attempt
  reports the error together with the value the variable then holds.\<close>

definition create_delete_marker_attempt ::
  "config \<Rightarrow> namespace_fs \<Rightarrow> string \<Rightarrow> version_info option \<Rightarrow> string option
     \<Rightarrow> ((js_error \<times> string option) + string option) fsm" where
  "create_delete_marker_attempt cfg ns key deleted_version_info held =
     fs_catch
       (fs_bind (start_upload cfg ns) (\<lambda>upload_path.
        fs_bind (native_stat upload_path) (\<lambda>stat.
          let delete_marker_version_id =
                (if is_versioning_enabled ns then get_version_id_by_stat stat
                 else NULL_VERSION_ID);
              file_path = get_version_path ns key (Some delete_marker_version_id)
          in
          fs_catch
            (fs_bind
               (if is_versioning_suspended ns \<and> deleted_version_info \<noteq> None \<and>
                   version_id_str (the deleted_version_info) = NULL_VERSION_ID
                then assign_versions_to_fs_xattr ns None stat key None True
                else assign_versions_to_fs_xattr ns deleted_version_info stat key None True)
               (\<lambda>fs_xattr.
                  fs_then (file_replacexattr upload_path fs_xattr)
                    (fs_then (make_path_dirs file_path)
                       (fs_then (native_rename upload_path file_path)
                          (fs_return (Inr (Some delete_marker_version_id)))))))
            (\<lambda>err. fs_return (Inl (err, Some delete_marker_version_id))))))
       (\<lambda>err. fs_return (Inl (err, held)))"

fun create_delete_marker_loop ::
  "nat \<Rightarrow> config \<Rightarrow> namespace_fs \<Rightarrow> string \<Rightarrow> version_info option \<Rightarrow> string option
     \<Rightarrow> string option fsm" where
  "create_delete_marker_loop 0 cfg ns key deleted held =
     fs_bind (create_delete_marker_attempt cfg ns key deleted held) (\<lambda>r.
       case r of Inr v \<Rightarrow> fs_return v | Inl (err, held') \<Rightarrow> fs_throw err)"
| "create_delete_marker_loop (Suc n) cfg ns key deleted held =
     fs_bind (create_delete_marker_attempt cfg ns key deleted held) (\<lambda>r.
       case r of
         Inr v \<Rightarrow> fs_return v
       | Inl (err, held') \<Rightarrow>
           if err_code err = Some ''EEXIST'' then fs_return held'
           else create_delete_marker_loop n cfg ns key deleted held')"

definition create_delete_marker ::
  "config \<Rightarrow> namespace_fs \<Rightarrow> string \<Rightarrow> version_info option \<Rightarrow> string option fsm" where
  "create_delete_marker cfg ns key deleted_version_info =
     create_delete_marker_loop (NSFS_RENAME_RETRIES cfg - 1) cfg ns key deleted_version_info None"

definition delete_latest_version_attempt ::
  "config \<Rightarrow> namespace_fs \<Rightarrow> string \<Rightarrow> string \<Rightarrow> version_info option fsm" where
  "delete_latest_version_attempt cfg ns latest_ver_path key =
     fs_bind (get_version_info latest_ver_path) (\<lambda>latest_ver_info.
       let versioned_path =
             (case latest_ver_info of
                None \<Rightarrow> None
              | Some l \<Rightarrow> Some (get_version_path ns key (Some (version_id_str l))))
       in
       fs_bind (case versioned_path of
                  None \<Rightarrow> fs_return None
                | Some vp \<Rightarrow> get_version_info vp) (\<lambda>versioned_info.
       fs_then
         (if latest_ver_info \<noteq> None then
            (let suspended_and_latest_is_not_null =
                   (is_versioning_suspended ns \<and>
                    version_id_str (the latest_ver_info) \<noteq> NULL_VERSION_ID)
             in if is_versioning_enabled ns \<or> suspended_and_latest_is_not_null
                then fs_then (make_path_dirs (the versioned_path))
                       (fs_then (safe_move cfg ns latest_ver_path (the versioned_path)
                                   latest_ver_info)
                          (if suspended_and_latest_is_not_null
                           then delete_null_version_from_versions_directory cfg ns key
                           else fs_return ()))
                else safe_unlink cfg ns latest_ver_path latest_ver_info)
          else fs_return ())
         (fs_return latest_ver_info)))"

fun delete_latest_version_loop ::
  "nat \<Rightarrow> config \<Rightarrow> namespace_fs \<Rightarrow> string \<Rightarrow> string \<Rightarrow> version_info option fsm" where
  "delete_latest_version_loop 0 cfg ns latest_ver_path key =
     delete_latest_version_attempt cfg ns latest_ver_path key"
| "delete_latest_version_loop (Suc n) cfg ns latest_ver_path key =
     fs_catch (delete_latest_version_attempt cfg ns latest_ver_path key)
       (\<lambda>err. if \<not> should_retry_link_unlink err then fs_throw err
              else delete_latest_version_loop n cfg ns latest_ver_path key)"

definition delete_latest_version ::
  "config \<Rightarrow> namespace_fs \<Rightarrow> string \<Rightarrow> string \<Rightarrow> delete_result fsm" where
  "delete_latest_version cfg ns latest_ver_path key =
     fs_bind (delete_latest_version_loop (NSFS_RENAME_RETRIES cfg - 1) cfg ns latest_ver_path key)
       (\<lambda>latest_ver_info.
          fs_bind (create_delete_marker cfg ns key latest_ver_info) (\<lambda>created_version_id.
            fs_return (Res_created created_version_id)))"

definition delete_version_id ::
  "config \<Rightarrow> namespace_fs \<Rightarrow> string \<Rightarrow> string \<Rightarrow> string option \<Rightarrow> delete_result fsm" where
  "delete_version_id cfg ns file_path key version_id =
     fs_bind (delete_single_object_versioned cfg ns key version_id) (\<lambda>del_obj_version_info.
       case del_obj_version_info of
         None \<Rightarrow> fs_return Res_empty
       | Some d \<Rightarrow>
           fs_then
             (if vi_latest d \<or> truthy (vi_delete_marker d)
              then fs_bind (fs_lift (get_file_path cfg ns key)) (\<lambda>latest_version_path.
                     promote_version_to_latest cfg ns key (Some d) latest_version_path)
              else fs_return ())
             (fs_then (delete_path_dirs file_path)
                (fs_return (Res_deleted (vi_delete_marker d) (Some (version_id_str d))))))"

definition clear_user_xattr :: "string \<Rightarrow> unit fsm" where
  "clear_user_xattr file_path =
     fs_catch (set_fs_xattr_op file_path None (Some XATTR_USER_PREFIX))
       (\<lambda>err. if err_code err \<noteq> Some ''ENOENT'' then fs_throw err else fs_return ())"

definition delete_single_object :: "config \<Rightarrow> namespace_fs \<Rightarrow> string \<Rightarrow> string \<Rightarrow> unit fsm" where
  "delete_single_object cfg ns file_path key =
     fs_then
       (fs_catch (native_unlink file_path)
          (\<lambda>err. if err_code err \<noteq> Some ''ENOENT'' then fs_throw err else fs_return ()))
       (fs_then (delete_path_dirs file_path)
          (if is_directory_content cfg file_path key
           then fs_bind (fs_lift (get_file_md_path cfg ns key)) clear_user_xattr
           else fs_return ()))"

definition delete_object ::
  "config \<Rightarrow> namespace_fs \<Rightarrow> object_sdk \<Rightarrow> string \<Rightarrow> string option \<Rightarrow> delete_result fsm" where
  "delete_object cfg ns sdk key version_id =
     fs_catch
       (fs_then (fs_lift (prepare_fs_context sdk))
       (fs_then (load_bucket ns)
       (fs_bind (find_version_path cfg ns key version_id False) (\<lambda>file_path.
        fs_then (check_path_in_bucket_boundaries cfg ns file_path)
          (if is_versioning_disabled ns
           then fs_then (delete_single_object cfg ns file_path key) (fs_return Res_empty)
           else if truthy version_id
           then delete_version_id cfg ns file_path key version_id
           else delete_latest_version cfg ns file_path key)))))
       (\<lambda>err. fs_throw (translate_object_error_codes err))"

text \<open>An entry of \<open>params.objects\<close> of \<open>delete_multiple_objects\<close>.  The branch for
  disabled versioning reads its property \<open>version\<close>, the other branch its property
  \<open>version_id\<close>.\<close>

record delete_entry =
  de_key :: string
  de_version :: "string option"
  de_version_id :: "string option"

fun delete_multiple_disabled ::
  "config \<Rightarrow> namespace_fs \<Rightarrow> delete_entry list \<Rightarrow> delete_result list \<Rightarrow> delete_result list fsm" where
  "delete_multiple_disabled cfg ns [] res = fs_return res"
| "delete_multiple_disabled cfg ns (e # es) res =
     (if truthy (de_version e) then delete_multiple_disabled cfg ns es (res @ [Res_empty])
      else
        fs_bind
          (fs_catch
             (fs_bind (fs_lift (get_file_path cfg ns (de_key e))) (\<lambda>file_path.
                fs_then (check_path_in_bucket_boundaries cfg ns file_path)
                  (fs_then (delete_single_object cfg ns file_path (de_key e))
                     (fs_return (Res_key (de_key e))))))
             (\<lambda>err. fs_return (Res_error (err_code err) (err_message err))))
          (\<lambda>r. delete_multiple_disabled cfg ns es (res @ [r])))"

text \<open>The loop of \<open>_delete_objects_versioned\<close> over the versions of one key; the state is
  \<open>res\<close>, \<open>deleted_delete_marker\<close>, \<open>delete_marker_created\<close> and \<open>latest_ver_info\<close>.\<close>

fun delete_objects_versioned_loop ::
  "config \<Rightarrow> namespace_fs \<Rightarrow> string \<Rightarrow> string \<Rightarrow> string option list
     \<Rightarrow> delete_result list \<times> bool \<times> bool \<times> version_info option
     \<Rightarrow> (delete_result list \<times> bool \<times> bool \<times> version_info option) fsm" where
  "delete_objects_versioned_loop cfg ns latest_version_path key [] st = fs_return st"
| "delete_objects_versioned_loop cfg ns latest_version_path key (version_id # vs)
       (res, deleted_delete_marker, delete_marker_created, latest_ver_info) =
     fs_bind
       (fs_catch
          (if truthy version_id
           then fs_bind (delete_single_object_versioned cfg ns key version_id) (\<lambda>del_ver_info.
                  case del_ver_info of
                    None \<Rightarrow>
                      fs_return (res @ [Res_empty], deleted_delete_marker,
                                 delete_marker_created, latest_ver_info)
                  | Some d \<Rightarrow>
                      fs_return
                        (res @ [Res_deleted (vi_delete_marker d) None],
                         (if vi_latest d then deleted_delete_marker
                          else deleted_delete_marker \<or> truthy (vi_delete_marker d)),
                         delete_marker_created,
                         (if vi_latest d then Some d else latest_ver_info)))
           else fs_bind (delete_latest_version cfg ns latest_version_path key) (\<lambda>version_res.
                  fs_return (res @ [version_res], deleted_delete_marker, True, latest_ver_info)))
          (\<lambda>err. fs_return (res @ [Res_error (err_code err) (err_message err)],
                            deleted_delete_marker, delete_marker_created, latest_ver_info)))
       (delete_objects_versioned_loop cfg ns latest_version_path key vs)"

definition delete_objects_versioned ::
  "config \<Rightarrow> namespace_fs \<Rightarrow> string \<Rightarrow> string option list \<Rightarrow> delete_result list fsm" where
  "delete_objects_versioned cfg ns key versions =
     fs_bind (fs_lift (get_file_path cfg ns key)) (\<lambda>latest_version_path.
     fs_then (check_path_in_bucket_boundaries cfg ns latest_version_path)
     (fs_bind (delete_objects_versioned_loop cfg ns latest_version_path key versions
                 ([], False, False, None)) (\<lambda>st.
        case st of (res, deleted_delete_marker, delete_marker_created, latest_ver_info) \<Rightarrow>
          fs_then
            (if (latest_ver_info \<noteq> None \<or> deleted_delete_marker) \<and> \<not> delete_marker_created
             then promote_version_to_latest cfg ns key latest_ver_info latest_version_path
             else fs_return ())
            (fs_then (delete_path_dirs (get_version_path ns key None)) (fs_return res)))))"

text \<open>\<open>versions_by_key_map\<close>: the version ids of each key, keys in order of first
  occurrence.\<close>

definition versions_by_key_map :: "delete_entry list \<Rightarrow> (string \<times> string option list) list" where
  "versions_by_key_map objects =
     foldl (\<lambda>m e. case obj_get m (de_key e) of
                     Some vs \<Rightarrow> obj_set m (de_key e) (vs @ [de_version_id e])
                   | None \<Rightarrow> obj_set m (de_key e) [de_version_id e]) [] objects"

fun delete_multiple_versioned ::
  "config \<Rightarrow> namespace_fs \<Rightarrow> (string \<times> string option list) list \<Rightarrow> delete_result list
     \<Rightarrow> delete_result list fsm" where
  "delete_multiple_versioned cfg ns [] res = fs_return res"
| "delete_multiple_versioned cfg ns (kv # kvs) res =
     fs_bind (delete_objects_versioned cfg ns (fst kv) (snd kv)) (\<lambda>key_res.
       delete_multiple_versioned cfg ns kvs (res @ key_res))"

definition delete_multiple_objects ::
  "config \<Rightarrow> namespace_fs \<Rightarrow> object_sdk \<Rightarrow> delete_entry list \<Rightarrow> delete_result list fsm" where
  "delete_multiple_objects cfg ns sdk objects =
     fs_catch
       (fs_then (fs_lift (prepare_fs_context sdk))
       (fs_then (load_bucket ns)
          (if is_versioning_disabled ns then delete_multiple_disabled cfg ns objects []
           else delete_multiple_versioned cfg ns (versions_by_key_map objects) [])))
       (\<lambda>err. fs_throw (translate_object_error_codes err))"

section \<open>Read path\<close>

definition read_object_md ::
  "(string \<Rightarrow> string option) \<Rightarrow> config \<Rightarrow> namespace_fs \<Rightarrow> object_sdk \<Rightarrow> string \<Rightarrow> string
     \<Rightarrow> string option \<Rightarrow> object_info fsm" where
  "read_object_md mime_getType cfg ns sdk bucket key version_id =
     fs_then (fs_lift (prepare_fs_context sdk))
       (fs_catch
          (fs_bind (find_version_path cfg ns key version_id True) (\<lambda>file_path.
           fs_then (check_path_in_bucket_boundaries cfg ns file_path)
           (fs_then (load_bucket ns)
           (fs_bind (native_stat file_path) (\<lambda>stat.
            fs_then (fs_lift (throw_if_delete_marker ns stat))
              (fs_return (get_object_info mime_getType ns bucket key stat
                 (if truthy version_id then the version_id else ''null'') True)))))))
          (\<lambda>err. fs_throw (translate_object_error_codes err)))"

text \<open>\<open>read_object_stream\<close>: the result is the bytes written to the response.  The
  buffer pool, abort signals and back-pressure do not change which bytes are written.\<close>

definition read_object_stream ::
  "config \<Rightarrow> namespace_fs \<Rightarrow> object_sdk \<Rightarrow> string \<Rightarrow> string option \<Rightarrow> nat option \<Rightarrow> nat option
     \<Rightarrow> string fsm" where
  "read_object_stream cfg ns sdk key version_id start_pos end_pos =
     fs_then (fs_lift (prepare_fs_context sdk))
       (fs_catch
          (fs_then (load_bucket ns)
          (fs_bind (find_version_path cfg ns key version_id False) (\<lambda>file_path.
           fs_then (check_path_in_bucket_boundaries cfg ns file_path)
           (fs_bind
              (if is_directory_content cfg file_path key
               then fs_catch
                      (fs_bind (fs_lift (get_file_md_path cfg ns key)) (\<lambda>md_path.
                         fs_bind (native_stat md_path) (\<lambda>dir_stat.
                           fs_return (obj_get (xattr dir_stat) XATTR_DIR_CONTENT = Some ''0''))))
                      (\<lambda>err. fs_return False)
               else fs_return False) (\<lambda>empty_dir_content.
              if empty_dir_content then fs_return []
              else (\<lambda>s.
                case obj_get (files s) file_path of
                  None \<Rightarrow> (Inl (errno ''ENOENT'' file_path), s)
                | Some f \<Rightarrow>
                    (case throw_if_delete_marker ns (stat_of f) of
                       Inl e \<Rightarrow> (Inl e, s)
                     | Inr u \<Rightarrow>
                         let start = (case start_pos of None \<Rightarrow> 0 | Some n \<Rightarrow> n);
                             data = drop start (f_data f)
                         in (Inr (case end_pos of None \<Rightarrow> data
                                  | Some e \<Rightarrow> take (e - start) data), s))))))))
          (\<lambda>err. fs_throw (translate_object_error_codes err)))"

section \<open>Listing: the checks before the walk\<close>

record list_params =
  lp_bucket :: string
  lp_delimiter :: "string option"
  lp_prefix :: "string option"
  lp_key_marker :: "string option"
  lp_version_id_marker :: "string option"
  lp_limit :: "int option"

record list_result =
  lr_objects :: "object_info list"
  lr_common_prefixes :: "string list"
  lr_is_truncated :: bool
  lr_next_marker :: "string option"
  lr_next_version_id_marker :: "string option"

text \<open>\<open>_list_objects\<close> up to the directory walk.  The walk itself (\<open>process_dir\<close> and the
  assembly of the result from the entries found) is the parameter \<open>walk\<close>, given the
  effective delimiter and limit.\<close>

definition list_objects_common ::
  "(string \<Rightarrow> int \<Rightarrow> bool \<Rightarrow> list_result fsm) \<Rightarrow> namespace_fs \<Rightarrow> object_sdk \<Rightarrow> list_params \<Rightarrow> bool
     \<Rightarrow> list_result fsm" where
  "list_objects_common walk ns sdk params list_versions =
     fs_catch
       (fs_then (fs_lift (prepare_fs_context sdk))
       (fs_then (load_bucket ns)
          (let delimiter = (case lp_delimiter params of None \<Rightarrow> [] | Some d \<Rightarrow> d) in
           if delimiter \<noteq> [] \<and> delimiter \<noteq> ''/''
           then fs_throw (new_Error (''NamespaceFS: Invalid delimiter '' @ delimiter))
           else
             let limit = min 1000 (case lp_limit params of None \<Rightarrow> 1000 | Some l \<Rightarrow> l) in
             if limit < 0 then fs_throw (new_Error ''Limit must be a positive Integer'')
             else if limit = 0
             then fs_return \<lparr>lr_objects = [], lr_common_prefixes = [], lr_is_truncated = False,
                              lr_next_marker = None, lr_next_version_id_marker = None\<rparr>
             else walk delimiter limit list_versions)))
       (\<lambda>err. fs_throw (translate_object_error_codes err))"

definition list_objects ::
  "(string \<Rightarrow> int \<Rightarrow> bool \<Rightarrow> list_result fsm) \<Rightarrow> namespace_fs \<Rightarrow> object_sdk \<Rightarrow> list_params
     \<Rightarrow> list_result fsm" where
  "list_objects walk ns sdk params = list_objects_common walk ns sdk params False"

definition list_object_versions ::
  "(string \<Rightarrow> int \<Rightarrow> bool \<Rightarrow> list_result fsm) \<Rightarrow> namespace_fs \<Rightarrow> object_sdk \<Rightarrow> list_params
     \<Rightarrow> list_result fsm" where
  "list_object_versions walk ns sdk params = list_objects_common walk ns sdk params True"

section \<open>Multipart completion\<close>

text \<open>An element \<open>{ num, etag }\<close> of \<open>params.multiparts\<close>.\<close>

record multipart =
  mp_num :: nat
  mp_etag :: string

definition mpu_path :: "config \<Rightarrow> namespace_fs \<Rightarrow> string \<Rightarrow> string" where
  "mpu_path cfg ns obj_id =
     path_join [bucket_path ns, get_bucket_tmpdir cfg ns, ''multipart-uploads'', obj_id]"

definition load_multipart :: "config \<Rightarrow> namespace_fs \<Rightarrow> string \<Rightarrow> string fsm" where
  "load_multipart cfg ns obj_id =
     fs_then (load_bucket ns)
       (let p = mpu_path cfg ns obj_id
        in fs_catch (fs_then (native_stat p) (fs_return p))
             (\<lambda>err. fs_throw (if err_code err = Some ''ENOENT''
                               then err\<lparr>err_rpc_code := Some ''NO_SUCH_UPLOAD''\<rparr> else err)))"

text \<open>Modelled from the spec: opening a file for reading and reading it to the end
  (\<open>open\<close>, \<open>read\<close> and \<open>readFile\<close> of the native layer); a missing file is \<open>ENOENT\<close>.\<close>

definition file_read_all :: "string \<Rightarrow> string fsm" where
  "file_read_all p = (\<lambda>s.
     case obj_get (files s) p of
       None \<Rightarrow> (Inl (errno ''ENOENT'' p), s)
     | Some f \<Rightarrow> (Inr (f_data f), s))"

text \<open>
  The loop of \<open>complete_object_upload\<close> over the sorted parts.  Modelled from the spec:
  \<open>nb_native().crypto.MD5Async\<close> is not part of the sources; it is the ``aggregate MD5''
  that is updated ``with the binary bytes of each part's md5 hex''.  Its state is the
  bytes it was fed (\<open>None\<close> when md5 is disabled), and its digest is the hash \<open>md5\<close>, a
  parameter, of those bytes.
\<close>

definition part_path :: "string \<Rightarrow> multipart \<Rightarrow> string" where
  "part_path mpu p = path_join [mpu, ''part-'' @ toString10 (mp_num p)]"

fun complete_parts ::
  "string \<Rightarrow> string \<Rightarrow> multipart list \<Rightarrow> string option \<Rightarrow> string option fsm" where
  "complete_parts mpu upload_path [] MD5Async = fs_return MD5Async"
| "complete_parts mpu upload_path (p # ps) MD5Async =
     fs_bind (native_stat (part_path mpu p)) (\<lambda>part_stat.
       if mp_etag p \<noteq> get_etag part_stat
       then fs_throw (new_Error (''mismatch part etag: '' @ toString10 (mp_num p)))
       else
         fs_bind (file_read_all (part_path mpu p)) (\<lambda>data.
           fs_then (file_write upload_path data)
             (complete_parts mpu upload_path ps
                (case MD5Async of
                   None \<Rightarrow> None
                 | Some fed \<Rightarrow> Some (fed @ hex_decode (mp_etag p))))))"

definition folder_delete :: "string \<Rightarrow> unit fsm" where
  "folder_delete dir = (\<lambda>s.
     if \<not> dir_exists s dir then (Inl (errno ''ENOENT'' dir), s)
     else (Inr (), s\<lparr>files := filter (\<lambda>kv. \<not> prefix (strip_trailing_slashes dir @ ''/'') (fst kv))
                                  (files s)\<rparr>))"

text \<open>
  \<open>complete_object_upload\<close> up to the call of \<open>_finish_upload\<close>: the staging path of the
  assembled body, the destination, the xattrs of the create request and the digest.
  \<open>JSON.parse\<close> of the saved create request is the parameter \<open>saved_xattr\<close>.
\<close>

definition complete_object_upload_assemble ::
  "(string \<Rightarrow> string) \<Rightarrow> (string \<Rightarrow> js_object option) \<Rightarrow> config \<Rightarrow> namespace_fs \<Rightarrow> object_sdk
     \<Rightarrow> string \<Rightarrow> string \<Rightarrow> multipart list
     \<Rightarrow> (string \<times> string \<times> js_object option \<times> string option) fsm" where
  "complete_object_upload_assemble md5 saved_xattr cfg ns sdk key obj_id multiparts =
     (let MD5Async = (if md5_enabled cfg ns sdk then Some [] else None);
          multiparts = sort_key mp_num multiparts
      in
      fs_bind (load_multipart cfg ns obj_id) (\<lambda>mpu.
      fs_bind (fs_lift (get_file_path cfg ns key)) (\<lambda>file_path.
      fs_then (check_path_in_bucket_boundaries cfg ns file_path)
      (let upload_path = path_join [mpu, ''final''] in
       fs_then (make_path_dirs upload_path)
      (fs_then (native_open_w upload_path)
      (fs_bind (complete_parts mpu upload_path multiparts MD5Async) (\<lambda>MD5Async.
       fs_bind (file_read_all (path_join [mpu, ''create_object_upload''])) (\<lambda>create_params.
         fs_return (upload_path, file_path, saved_xattr create_params,
           (case MD5Async of
              None \<Rightarrow> None
            | Some fed \<Rightarrow>
                Some (hex_encode (md5 fed) @ ''-'' @ toString10 (length multiparts))))))))))))"

definition complete_object_upload ::
  "(string \<Rightarrow> string) \<Rightarrow> (string \<Rightarrow> js_object option) \<Rightarrow> config \<Rightarrow> namespace_fs \<Rightarrow> object_sdk
     \<Rightarrow> upload_object_params \<Rightarrow> string \<Rightarrow> multipart list \<Rightarrow> upload_info fsm" where
  "complete_object_upload md5 saved_xattr cfg ns sdk params obj_id multiparts =
     fs_then (fs_lift (prepare_fs_context sdk))
       (fs_catch
          (fs_bind (complete_object_upload_assemble md5 saved_xattr cfg ns sdk (up_key params)
                      obj_id multiparts) (\<lambda>a.
             case a of (upload_path, file_path, xattr', digest) \<Rightarrow>
               fs_bind (finish_upload cfg ns (params\<lparr>up_xattr := xattr'\<rparr>) upload_path file_path
                          digest) (\<lambda>upload_info.
                 fs_then (if NSFS_REMOVE_PARTS_ON_COMPLETE cfg
                          then folder_delete (mpu_path cfg ns obj_id) else fs_return ())
                   (fs_return upload_info))))
          (\<lambda>err. fs_throw (translate_object_error_codes err)))"

text \<open>The etag that the spec states for a completion: the hex md5 of the decoded part
  etags in ascending order of part number, a dash, and the number of parts.\<close>

definition multipart_etag :: "(string \<Rightarrow> string) \<Rightarrow> multipart list \<Rightarrow> string" where
  "multipart_etag md5 multiparts =
     hex_encode (md5 (concat (map (\<lambda>p. hex_decode (mp_etag p)) (sort_key mp_num multiparts))))
       @ ''-'' @ toString10 (length multiparts)"

text \<open>\<open>upload_multipart\<close>: a part is written by the upload pipeline to \<open>part-<num>\<close>
  and is neither versioned nor moved.  The value that \<open>_upload_stream\<close> returns is not
  stored in \<open>upload_params.digest\<close> here (\<open>upload_object\<close> stores it), so
  \<open>_finish_upload\<close> runs without a digest.\<close>

definition upload_multipart ::
  "(string \<Rightarrow> string) \<Rightarrow> config \<Rightarrow> namespace_fs \<Rightarrow> object_sdk \<Rightarrow> upload_object_params \<Rightarrow> string
     \<Rightarrow> nat \<Rightarrow> upload_info fsm" where
  "upload_multipart md5 cfg ns sdk params obj_id num =
     fs_then (fs_lift (prepare_fs_context sdk))
       (fs_catch
          (fs_bind (load_multipart cfg ns obj_id) (\<lambda>mpu.
             let upload_path = path_join [mpu, ''part-'' @ toString10 num] in
             fs_then (make_path_dirs upload_path)
            (fs_then (native_open_w upload_path)
            (fs_bind (upload_stream md5 cfg ns sdk upload_path (up_source_stream params))
               (\<lambda>digest. finish_upload cfg ns params upload_path upload_path None)))))
          (\<lambda>err. fs_throw (translate_object_error_codes err)))"

section \<open>A bucket to run the model on\<close>

text \<open>
  Concrete inputs: a configuration, the bucket at \<open>/b\<close> in a given versioning mode, an
  account that has an nsfs configuration, the empty bucket, and the parameters of an upload
  of the bytes \<open>d\<close> to the key \<open>k\<close> with user metadata \<open>x\<close>.
\<close>

definition cfg0 :: config where
  "cfg0 = \<lparr>NSFS_FOLDER_OBJECT_NAME = ''.folder'', NSFS_TEMP_DIR_NAME = ''.noobaa-nsfs'',
           NSFS_CHECK_BUCKET_BOUNDARIES = True, NSFS_RENAME_RETRIES = 3,
           NSFS_CALCULATE_MD5 = False, NSFS_VERSIONING_ENABLED = True,
           NSFS_REMOVE_PARTS_ON_COMPLETE = True\<rparr>"

definition ns0 :: "versioning_status \<Rightarrow> namespace_fs" where
  "ns0 v = \<lparr>bucket_path = ''/b'', bucket_id = ''1'', access_mode = ''READ_WRITE'',
            versioning = v, force_md5_etag = False\<rparr>"

definition sdk0 :: object_sdk where
  "sdk0 = \<lparr>nsfs_account_config = True, account_force_md5_etag = False\<rparr>"

definition fs0 :: fs_state where
  "fs0 = \<lparr>files = [], dirs = [''/b''], next_ino = 1, clock = 1, next_uuid = 0\<rparr>"

definition put_params :: "string \<Rightarrow> js_object option \<Rightarrow> string \<Rightarrow> upload_object_params" where
  "put_params k x d =
     \<lparr>up_bucket = ''bkt'', up_key = k, up_xattr = x, up_content_type = None,
      up_md5_hex = None, up_encryption_AES256 = False, up_size = None, up_source_stream = d\<rparr>"

text \<open>The state in which a computation leaves the filesystem.\<close>

definition state_after :: "'a fsm \<Rightarrow> fs_state \<Rightarrow> fs_state" where
  "state_after m s = snd (m s)"

text \<open>The bucket after a delete of the key \<open>k\<close> under suspended versioning: a delete marker
  with the version id \<open>null\<close> in \<open>.versions/\<close>.\<close>

definition fs_marker :: fs_state where
  "fs_marker =
     \<lparr>files = [(''/b/.versions/k_null'',
                \<lparr>f_ino = 1, f_mtimeNs = 1,
                 f_xattr = [(''user.version_id'', ''null''), (''user.delete_marker'', ''true'')],
                 f_data = []\<rparr>)],
      dirs = [''/b''], next_ino = 2, clock = 2, next_uuid = 1\<rparr>"

text \<open>A listing request with the delimiter \<open>d\<close>.\<close>

definition list_request :: "string \<Rightarrow> list_params" where
  "list_request d =
     \<lparr>lp_bucket = ''bkt'', lp_delimiter = Some d, lp_prefix = None, lp_key_marker = None,
      lp_version_id_marker = None, lp_limit = None\<rparr>"


text \<open>The bucket that holds the object \<open>k\<close>, uploaded while versioning was disabled.\<close>

definition fs_k :: fs_state where
  "fs_k =
     \<lparr>files = [(''/b/k'', \<lparr>f_ino = 1, f_mtimeNs = 2, f_xattr = [], f_data = ''abc''\<rparr>)],
      dirs = [''/b''], next_ino = 2, clock = 3, next_uuid = 1\<rparr>"

text \<open>
  The files of a key that carry the version id \<open>null\<close>: the latest file at the key path
  and the entry \<open><key>_null\<close> of the key's \<open>.versions/\<close> directory, each when it exists and
  \<open>_get_version_id_by_xattr\<close> of it is \<open>null\<close>.
\<close>

definition null_version_paths :: "config \<Rightarrow> namespace_fs \<Rightarrow> string \<Rightarrow> fs_state \<Rightarrow> string list" where
  "null_version_paths cfg ns key s =
     filter (\<lambda>p. case obj_get (files s) p of
                    None \<Rightarrow> False
                  | Some f \<Rightarrow> get_version_id_by_xattr (stat_of f) = NULL_VERSION_ID)
       (case get_file_path cfg ns key of
          Inl e \<Rightarrow> []
        | Inr p \<Rightarrow> [p, get_version_path ns key (Some NULL_VERSION_ID)])"

text \<open>
  A run on the empty bucket: under suspended versioning an upload of \<open>a/k_x\<close> and a delete
  of \<open>a/k\<close>; then, under enabled versioning, an upload of \<open>a/k_x\<close>, an upload of \<open>a/k\<close>
  whose user metadata has the key \<open>prev_version_id\<close>, and the delete of the version of
  \<open>a/k\<close> that this upload created.
\<close>

definition run_1 :: fs_state where
  "run_1 = state_after (upload_object (\<lambda>bytes. bytes) cfg0 (ns0 VER_SUSPENDED) sdk0
                          (put_params ''a/k_x'' None ''X'')) fs0"

definition run_2 :: fs_state where
  "run_2 = state_after (delete_object cfg0 (ns0 VER_SUSPENDED) sdk0 ''a/k'' None) run_1"

definition run_3 :: fs_state where
  "run_3 = state_after (upload_object (\<lambda>bytes. bytes) cfg0 (ns0 VER_ENABLED) sdk0
                          (put_params ''a/k_x'' None ''Y'')) run_2"

definition run_4 :: fs_state where
  "run_4 = state_after (upload_object (\<lambda>bytes. bytes) cfg0 (ns0 VER_ENABLED) sdk0
                          (put_params ''a/k'' (Some [(''prev_version_id'', ''x_null'')]) ''Z''))
             run_3"

definition run_5 :: fs_state where
  "run_5 = state_after (delete_object cfg0 (ns0 VER_ENABLED) sdk0 ''a/k''
                          (Some ''mtime-7-ino-4'')) run_4"

section \<open>Properties\<close>

subsection \<open>The state monad applied to a state\<close>

text \<open>
  Rules that run the model on a given state.  A bind is opened only when it is applied to
  a state, and its continuation is left alone until the first computation has produced a
  result, so a run on a concrete filesystem is a sequence of rewrite steps.
\<close>

lemma fs_return_app: "fs_return x s = (Inr x, s)"
  by (simp add: fs_return_def)

lemma fs_throw_app: "fs_throw e s = (Inl e, s)"
  by (simp add: fs_throw_def)

lemma fs_bind_app:
  "fs_bind m f s = (case m s of (Inl e, s') \<Rightarrow> (Inl e, s') | (Inr x, s') \<Rightarrow> f x s')"
  by (simp add: fs_bind_def)

lemma fs_then_app:
  "fs_then m n s = (case m s of (Inl e, s') \<Rightarrow> (Inl e, s') | (Inr x, s') \<Rightarrow> n s')"
  by (simp add: fs_then_def fs_bind_def)

lemma fs_catch_app:
  "fs_catch m h s = (case m s of (Inl e, s') \<Rightarrow> h e s' | (Inr x, s') \<Rightarrow> (Inr x, s'))"
  by (simp add: fs_catch_def)

lemma fs_lift_app: "fs_lift r s = (case r of Inl e \<Rightarrow> (Inl e, s) | Inr x \<Rightarrow> (Inr x, s))"
  by (simp add: fs_lift_def fs_throw_def fs_return_def split: sum.splits)

lemma fs_bind_later: "s = s' \<Longrightarrow> fs_bind m f s = fs_bind m f s'"
  by simp

lemma fs_then_later: "s = s' \<Longrightarrow> fs_then m n s = fs_then m n s'"
  by simp

lemma fs_catch_later: "s = s' \<Longrightarrow> fs_catch m h s = fs_catch m h s'"
  by simp

lemmas monad_app =
  fs_return_app fs_throw_app fs_bind_app fs_then_app fs_catch_app fs_lift_app

lemmas by_need =
  fs_bind_later fs_then_later fs_catch_later
  prod.case_cong_weak sum.case_cong_weak option.case_cong_weak if_weak_cong

text \<open>The definitions of the operations, applied to a state.\<close>

lemmas op_app =
  load_bucket_def [THEN fun_cong] check_path_in_bucket_boundaries_def [THEN fun_cong]
  make_path_dirs_def [THEN fun_cong] delete_path_dirs_def [THEN fun_cong]
  check_access_def [THEN fun_cong] get_version_info_def [THEN fun_cong]
  find_version_path_def [THEN fun_cong] safe_link_posix_def [THEN fun_cong]
  generate_unique_path_def [THEN fun_cong] safe_unlink_posix_def [THEN fun_cong]
  safe_move_posix_def [THEN fun_cong] safe_move_def [THEN fun_cong]
  safe_unlink_def [THEN fun_cong] version_entry_mtime_def [THEN fun_cong]
  find_max_version_past_def [THEN fun_cong] get_prev_version_info_def [THEN fun_cong]
  assign_versions_to_fs_xattr_def [THEN fun_cong] upload_stream_def [THEN fun_cong]
  start_upload_def [THEN fun_cong] set_fs_xattr_op_def [THEN fun_cong]
  assign_dir_content_to_xattr_def [THEN fun_cong]
  delete_null_version_attempt_def [THEN fun_cong]
  delete_null_version_from_versions_directory_def [THEN fun_cong]
  move_to_dest_version_attempt_def [THEN fun_cong] move_to_dest_version_def [THEN fun_cong]
  move_to_dest_attempt_def [THEN fun_cong] move_to_dest_def [THEN fun_cong]
  finish_upload_def [THEN fun_cong] create_empty_dir_content_def [THEN fun_cong]
  upload_object_def [THEN fun_cong]
  delete_single_object_versioned_attempt_def [THEN fun_cong]
  delete_single_object_versioned_def [THEN fun_cong]
  promote_version_to_latest_attempt_def [THEN fun_cong]
  promote_version_to_latest_def [THEN fun_cong]
  create_delete_marker_attempt_def [THEN fun_cong] create_delete_marker_def [THEN fun_cong]
  delete_latest_version_attempt_def [THEN fun_cong]
  delete_latest_version_def [THEN fun_cong] delete_version_id_def [THEN fun_cong]
  clear_user_xattr_def [THEN fun_cong] delete_single_object_def [THEN fun_cong]
  delete_object_def [THEN fun_cong] delete_objects_versioned_def [THEN fun_cong]
  delete_multiple_objects_def [THEN fun_cong] read_object_md_def [THEN fun_cong]
  read_object_stream_def [THEN fun_cong] list_objects_common_def [THEN fun_cong]
  list_objects_def [THEN fun_cong] list_object_versions_def [THEN fun_cong]
  load_multipart_def [THEN fun_cong] file_read_all_def [THEN fun_cong]
  folder_delete_def [THEN fun_cong] complete_object_upload_assemble_def [THEN fun_cong]
  complete_object_upload_def [THEN fun_cong] upload_multipart_def [THEN fun_cong]
  native_stat_def [THEN fun_cong] native_unlink_def [THEN fun_cong]
  native_rename_def [THEN fun_cong] native_readdir_def [THEN fun_cong]
  native_open_w_def [THEN fun_cong] file_write_def [THEN fun_cong]
  file_replacexattr_def [THEN fun_cong] uuidv4_def [THEN fun_cong]
  native_safe_link_def [THEN fun_cong] native_safe_unlink_def [THEN fun_cong]

text \<open>The definitions of the pure helpers.\<close>

lemmas pure_eval =
  toString36.simps toString10.simps Let_def suffix_to_prefix sublist_Cons_right prefix_Cons numeral_2_eq_2 get_file_path_def
  get_file_md_path_def is_directory_content_def get_version_path_def path_normalize_def
  path_join_def path_dirname_def path_basename_def strip_trailing_slashes_def join_def
  split_def first_segment_def lastIndexOf_def at_index_def is_path_in_bucket_boundaries_def
  prepare_fs_context_def is_versioning_enabled_def is_versioning_disabled_def
  is_versioning_suspended_def get_bucket_tmpdir_def truthy_def isEmpty_def
  XATTR_USER_PREFIX_def XATTR_CONTENT_TYPE_def XATTR_MD5_KEY_def XATTR_VERSION_ID_def
  XATTR_PREV_VERSION_ID_def XATTR_DELETE_MARKER_def XATTR_DIR_CONTENT_def
  HIDDEN_VERSIONS_PATH_def NULL_VERSION_ID_def INTERNAL_XATTR_def new_Error_def
  new_RpcError_def new_error_code_def translate_object_error_codes_def to_fs_xattr_def
  to_xattr_def mapKeys_def Object_assign_def assign_md5_to_fs_xattr_def
  get_version_id_by_stat_def get_version_id_by_xattr_def etag_from_fs_xattr_def
  get_etag_def get_encryption_info_def get_upload_info_def verify_encryption_def
  md5_enabled_def finish_upload_xattr_def digit36_def get_object_info_def
  extract_version_info_from_xattr_def get_version_id_by_mode_def
  throw_if_wrong_version_format_def version_format_test_def string_to_bigint36_def
  digits36_def digit36_val_def parseInt36_def should_retry_link_unlink_def
  posix_link_retry_err_def posix_unlink_retry_err_def type_error_undefined_def
  max_entry_info_def throw_if_delete_marker_def empty_dir_content_flow_def stat_of_def
  dir_exists_def errno_def obj_get_def obj_delete_def versions_by_key_map_def mpu_path_def
  part_path_def hex_val_def

lemmas run = op_app monad_app pure_eval

lemmas inputs = cfg0_def ns0_def sdk0_def fs0_def put_params_def state_after_def

subsection \<open>Lookups leave the filesystem as it is\<close>

lemma native_stat_state: "snd (native_stat p s) = s"
  by (simp add: native_stat_def split: option.split)

lemma load_bucket_state: "snd (load_bucket ns s) = s"
proof -
  obtain r where "native_stat (bucket_path ns) s = (r, s)"
    using native_stat_state [of "bucket_path ns" s] by (cases "native_stat (bucket_path ns) s") simp
  then show ?thesis
    by (cases r) (simp_all add: load_bucket_def monad_app)
qed

lemma check_path_in_bucket_boundaries_state:
  "snd (check_path_in_bucket_boundaries cfg ns p s) = s"
  by (simp add: check_path_in_bucket_boundaries_def monad_app)

lemma get_version_info_state: "snd (get_version_info p s) = s"
proof -
  obtain r where r: "native_stat p s = (r, s)"
    using native_stat_state [of p s] by (cases "native_stat p s") simp
  show ?thesis
  proof (cases r)
    case (Inl e)
    with r show ?thesis by (simp add: get_version_info_def monad_app)
  next
    case (Inr st)
    with r show ?thesis
      by (cases "extract_version_info_from_xattr (get_version_id_by_xattr st)")
         (simp_all add: get_version_info_def monad_app Let_def)
  qed
qed

lemma find_version_path_state: "snd (find_version_path cfg ns key v md s) = s"
proof (cases "if md then get_file_md_path cfg ns key else get_file_path cfg ns key")
  case (Inl e)
  then show ?thesis by (simp add: find_version_path_def monad_app)
next
  case (Inr p)
  obtain r where r: "get_version_info p s = (r, s)"
    using get_version_info_state [of p s] by (cases "get_version_info p s") simp
  show ?thesis
  proof (cases "truthy v")
    case False
    with Inr show ?thesis by (simp add: find_version_path_def monad_app)
  next
    case True
    with Inr r show ?thesis
      by (cases "throw_if_wrong_version_format (the v)"; cases r)
         (simp_all add: find_version_path_def monad_app)
  qed
qed

subsection \<open>Version id in object info\<close>

text \<open>
  Claim C10.  The \<open>version_id\<close> of the object info built by \<open>_get_object_info\<close>
  (the only builder used by \<open>read_object_md\<close> and by the listings) is falsy whenever the
  bucket's versioning mode is SUSPENDED or DISABLED, whatever \<open>version_id\<close> xattr the
  file carries; with the non-empty \<open>return_version_id\<close> that both callers pass it is the
  boolean \<open>false\<close>.
\<close>

theorem get_object_info_version_id_only_enabled:
  assumes "versioning ns = VER_SUSPENDED \<or> versioning ns = VER_DISABLED"
  shows "\<not> js_truthy (oi_version_id (get_object_info mime_getType ns bucket key stat rv latest))
       \<and> (rv \<noteq> [] \<longrightarrow>
          oi_version_id (get_object_info mime_getType ns bucket key stat rv latest) = JS_bool False)"
  using assms by (auto simp: get_object_info_def is_versioning_enabled_def js_truthy_def Let_def)

theorem get_object_info_version_id_only_enabled_witness:
  "oi_version_id (get_object_info (\<lambda>k. None)
      \<lparr>bucket_path = ''/b'', bucket_id = ''1'', access_mode = ''READ_WRITE'',
       versioning = VER_SUSPENDED, force_md5_etag = False\<rparr>
      ''bkt'' ''k''
      \<lparr>ino = 7, mtimeNsBigint = 100, mtime_ms = 0, size_bytes = 3,
       xattr = [(''user.version_id'', ''null'')]\<rparr>
      ''null'' True) = JS_bool False"
  using get_object_info_version_id_only_enabled
    [of "\<lparr>bucket_path = ''/b'', bucket_id = ''1'', access_mode = ''READ_WRITE'',
       versioning = VER_SUSPENDED, force_md5_etag = False\<rparr>" "\<lambda>k. None" "''bkt''" "''k''"
       "\<lparr>ino = 7, mtimeNsBigint = 100, mtime_ms = 0, size_bytes = 3,
       xattr = [(''user.version_id'', ''null'')]\<rparr>" "''null''" True]
  by simp

subsection \<open>Keys with a relative segment\<close>

lemma get_file_path_relative:
  "sublist ''./'' key \<Longrightarrow>
     get_file_path cfg ns key = Inl (new_Error (''Bad relative path key '' @ key))"
  by (simp add: get_file_path_def)

lemma find_version_path_relative:
  assumes "sublist ''./'' key"
  shows "find_version_path cfg ns key v md s =
           (Inl (new_Error (''Bad relative path key '' @ key)), s)"
  using assms
  by (simp add: find_version_path_def get_file_md_path_def get_file_path_relative monad_app)

text \<open>
  Claim C9.  A key that contains the substring \<open>./\<close> is rejected by the path mapper
  \<open>_get_file_path\<close> with the error \<open>Bad relative path key\<close>, and no path is produced: the
  same holds for \<open>_get_file_md_path\<close> and \<open>_find_version_path\<close>, which go through it.
  So an upload, a delete, a metadata read and a stream read of such a key all fail, and
  they leave the filesystem exactly as it was.
\<close>

theorem relative_key_rejected:
  assumes "sublist ''./'' key"
  shows "get_file_path cfg ns key = Inl (new_Error (''Bad relative path key '' @ key))
       \<and> get_file_md_path cfg ns key = Inl (new_Error (''Bad relative path key '' @ key))
       \<and> find_version_path cfg ns key version_id md s =
             (Inl (new_Error (''Bad relative path key '' @ key)), s)
       \<and> (\<exists>e. upload_object md5 cfg ns sdk (params\<lparr>up_key := key\<rparr>) s = (Inl e, s))
       \<and> (\<exists>e. delete_object cfg ns sdk key version_id s = (Inl e, s))
       \<and> (\<exists>e. read_object_md mime_getType cfg ns sdk bucket key version_id s = (Inl e, s))
       \<and> (\<exists>e. read_object_stream cfg ns sdk key version_id start_pos end_pos s = (Inl e, s))"
proof -
  note gp = get_file_path_relative [OF assms, of cfg ns]
  note fv = find_version_path_relative [OF assms, of cfg ns _ _ s]
  obtain r where lb: "load_bucket ns s = (r, s)"
    using load_bucket_state [of ns s] by (cases "load_bucket ns s") simp
  have up: "\<exists>e. upload_object md5 cfg ns sdk (params\<lparr>up_key := key\<rparr>) s = (Inl e, s)"
    using lb gp
    by (cases "prepare_fs_context sdk"; cases r) (simp_all add: upload_object_def monad_app)
  have del: "\<exists>e. delete_object cfg ns sdk key version_id s = (Inl e, s)"
    using lb fv
    by (cases "prepare_fs_context sdk"; cases r) (simp_all add: delete_object_def monad_app)
  have md: "\<exists>e. read_object_md mime_getType cfg ns sdk bucket key version_id s = (Inl e, s)"
    using fv
    by (cases "prepare_fs_context sdk") (simp_all add: read_object_md_def monad_app)
  have rd: "\<exists>e. read_object_stream cfg ns sdk key version_id start_pos end_pos s = (Inl e, s)"
    using lb fv
    by (cases "prepare_fs_context sdk"; cases r) (simp_all add: read_object_stream_def monad_app)
  from gp fv up del md rd show ?thesis
    by (simp add: get_file_md_path_def)
qed

theorem relative_key_rejected_witness:
  "sublist ''./'' ''../b2/k''
   \<and> get_file_path cfg0 (ns0 VER_ENABLED) ''../b2/k'' =
       Inl (new_Error ''Bad relative path key ../b2/k'')
   \<and> fst (upload_object (\<lambda>d. d) cfg0 (ns0 VER_ENABLED) sdk0 (put_params ''../b2/k'' None ''abc'') fs0)
       = Inl (new_Error ''Bad relative path key ../b2/k'')
   \<and> state_after (upload_object (\<lambda>d. d) cfg0 (ns0 VER_ENABLED) sdk0
         (put_params ''../b2/k'' None ''abc'')) fs0 = fs0"
  using relative_key_rejected [of "''../b2/k''" cfg0 "ns0 VER_ENABLED" None False fs0 "\<lambda>d. d" sdk0
          "put_params ''../b2/k'' None ''abc''" "\<lambda>k. None" "''bkt''" None None]
  by (simp add: run inputs split del: if_split cong: by_need)

subsection \<open>Reading a delete marker\<close>

lemma throw_if_delete_marker_marked:
  assumes "versioning ns = VER_ENABLED \<or> versioning ns = VER_SUSPENDED"
    and "truthy (obj_get (xattr stat) XATTR_DELETE_MARKER)"
  shows "throw_if_delete_marker ns stat =
           Inl (new_error_code ''ENOENT'' ''Entry is a delete marker'')"
  using assms by (auto simp: throw_if_delete_marker_def)

lemma translate_delete_marker_error:
  "translate_object_error_codes (new_error_code ''ENOENT'' ''Entry is a delete marker'') =
     \<lparr>err_message = ''Entry is a delete marker'', err_code = Some ''ENOENT'',
      err_rpc_code = Some ''NO_SUCH_OBJECT''\<rparr>"
  by (simp add: translate_object_error_codes_def new_error_code_def truthy_def)

text \<open>
  Claim C6.  Let the bucket's versioning mode be ENABLED or SUSPENDED, and let the request
  reach an entry: the account has an nsfs configuration, the bucket directory exists, the
  key and the version id resolve to the path \<open>p\<close> inside the bucket, and \<open>p\<close> holds a file
  (of a key that is no directory object).  If the \<open>delete_marker\<close> xattr of that file is
  set, then \<open>read_object_md\<close> and \<open>read_object_stream\<close> both fail with the error
  \<open>Entry is a delete marker\<close>, whose code is \<open>ENOENT\<close> and whose rpc code is
  \<open>NO_SUCH_OBJECT\<close>; neither returns object info or data, and the filesystem is unchanged.
\<close>

theorem read_delete_marker_no_such_object:
  assumes mode: "versioning ns = VER_ENABLED \<or> versioning ns = VER_SUSPENDED"
    and account: "nsfs_account_config sdk"
    and bucket_dir: "load_bucket ns s = (Inr (), s)"
    and md_path: "find_version_path cfg ns key version_id True s = (Inr p, s)"
    and file_path: "find_version_path cfg ns key version_id False s = (Inr p, s)"
    and inside: "is_path_in_bucket_boundaries ns p"
    and no_dir_object: "\<not> is_directory_content cfg p key"
    and entry: "obj_get (files s) p = Some f"
    and marker: "truthy (obj_get (f_xattr f) XATTR_DELETE_MARKER)"
  shows "read_object_md mime_getType cfg ns sdk bucket key version_id s =
           (Inl \<lparr>err_message = ''Entry is a delete marker'', err_code = Some ''ENOENT'',
                 err_rpc_code = Some ''NO_SUCH_OBJECT''\<rparr>, s)
       \<and> read_object_stream cfg ns sdk key version_id start_pos end_pos s =
           (Inl \<lparr>err_message = ''Entry is a delete marker'', err_code = Some ''ENOENT'',
                 err_rpc_code = Some ''NO_SUCH_OBJECT''\<rparr>, s)"
proof -
  have ctx: "prepare_fs_context sdk = Inr ()"
    using account by (simp add: prepare_fs_context_def)
  have chk: "check_path_in_bucket_boundaries cfg ns p s = (Inr (), s)"
    using inside by (simp add: check_path_in_bucket_boundaries_def monad_app)
  have st: "native_stat p s = (Inr (stat_of f), s)"
    using entry by (simp add: native_stat_def)
  have thr: "throw_if_delete_marker ns (stat_of f) =
               Inl (new_error_code ''ENOENT'' ''Entry is a delete marker'')"
    using mode marker by (intro throw_if_delete_marker_marked) (simp_all add: stat_of_def)
  have md: "read_object_md mime_getType cfg ns sdk bucket key version_id s =
              (Inl (translate_object_error_codes
                      (new_error_code ''ENOENT'' ''Entry is a delete marker'')), s)"
    by (simp add: read_object_md_def monad_app ctx md_path chk bucket_dir st thr)
  have rd: "read_object_stream cfg ns sdk key version_id start_pos end_pos s =
              (Inl (translate_object_error_codes
                      (new_error_code ''ENOENT'' ''Entry is a delete marker'')), s)"
    by (simp add: read_object_stream_def monad_app ctx file_path chk bucket_dir
          no_dir_object entry thr)
  from md rd show ?thesis
    by (simp add: translate_delete_marker_error)
qed

theorem read_delete_marker_no_such_object_witness:
  "read_object_md (\<lambda>k. None) cfg0 (ns0 VER_SUSPENDED) sdk0 ''bkt'' ''k'' (Some ''null'') fs_marker =
     (Inl \<lparr>err_message = ''Entry is a delete marker'', err_code = Some ''ENOENT'',
           err_rpc_code = Some ''NO_SUCH_OBJECT''\<rparr>, fs_marker)
   \<and> read_object_stream cfg0 (ns0 VER_SUSPENDED) sdk0 ''k'' (Some ''null'') None None fs_marker =
     (Inl \<lparr>err_message = ''Entry is a delete marker'', err_code = Some ''ENOENT'',
           err_rpc_code = Some ''NO_SUCH_OBJECT''\<rparr>, fs_marker)"
proof -
  have mode: "versioning (ns0 VER_SUSPENDED) = VER_ENABLED \<or>
              versioning (ns0 VER_SUSPENDED) = VER_SUSPENDED"
    by (simp add: ns0_def)
  have account: "nsfs_account_config sdk0"
    by (simp add: sdk0_def)
  have bucket_dir: "load_bucket (ns0 VER_SUSPENDED) fs_marker = (Inr (), fs_marker)"
    by (simp add: run inputs fs_marker_def split del: if_split cong: by_need)
  have path: "find_version_path cfg0 (ns0 VER_SUSPENDED) ''k'' (Some ''null'') md fs_marker =
                (Inr ''/b/.versions/k_null'', fs_marker)" for md
    by (cases md) (simp_all add: run inputs fs_marker_def split del: if_split cong: by_need)
  have inside: "is_path_in_bucket_boundaries (ns0 VER_SUSPENDED) ''/b/.versions/k_null''"
    by (simp add: run inputs)
  have no_dir_object: "\<not> is_directory_content cfg0 ''/b/.versions/k_null'' ''k''"
    by (simp add: run inputs)
  have entry: "obj_get (files fs_marker) ''/b/.versions/k_null'' =
                Some \<lparr>f_ino = 1, f_mtimeNs = 1,
                      f_xattr = [(''user.version_id'', ''null''), (''user.delete_marker'', ''true'')],
                      f_data = []\<rparr>"
    by (simp add: fs_marker_def obj_get_def)
  have marker: "truthy (obj_get (f_xattr \<lparr>f_ino = 1, f_mtimeNs = 1,
                      f_xattr = [(''user.version_id'', ''null''), (''user.delete_marker'', ''true'')],
                      f_data = []\<rparr>) XATTR_DELETE_MARKER)"
    by (simp add: run)
  show ?thesis
    by (rule read_delete_marker_no_such_object
          [OF mode account bucket_dir path path inside no_dir_object entry marker])
qed

subsection \<open>Listing with an invalid delimiter\<close>

lemma list_objects_common_invalid_delimiter:
  assumes "lp_delimiter params = Some d" and "d \<noteq> []" and "d \<noteq> ''/''"
  shows "\<exists>e. list_objects_common walk ns sdk params list_versions s = (Inl e, s)"
    and "nsfs_account_config sdk \<Longrightarrow> load_bucket ns s = (Inr (), s) \<Longrightarrow>
         list_objects_common walk ns sdk params list_versions s =
           (Inl (new_Error (''NamespaceFS: Invalid delimiter '' @ d)), s)"
proof -
  obtain r where lb: "load_bucket ns s = (r, s)"
    using load_bucket_state [of ns s] by (cases "load_bucket ns s") simp
  show "\<exists>e. list_objects_common walk ns sdk params list_versions s = (Inl e, s)"
    using assms lb
    by (cases "prepare_fs_context sdk"; cases r)
       (simp_all add: list_objects_common_def monad_app)
  show "list_objects_common walk ns sdk params list_versions s =
          (Inl (new_Error (''NamespaceFS: Invalid delimiter '' @ d)), s)"
    if "nsfs_account_config sdk" and "load_bucket ns s = (Inr (), s)"
    using assms that
    by (simp add: list_objects_common_def monad_app prepare_fs_context_def
          translate_object_error_codes_def new_Error_def truthy_def)
qed

text \<open>
  Claim C8 as stated does not hold: the error of an invalid delimiter carries no
  \<open>BAD_REQUEST\<close>.  On the empty bucket, a listing with the delimiter \<open>,\<close> fails with a plain
  error that has no code and no rpc code, whatever the directory walk is.
\<close>

theorem invalid_delimiter_not_bad_request:
  "\<forall>walk. list_objects walk (ns0 VER_DISABLED) sdk0 (list_request '','') fs0 =
      (Inl \<lparr>err_message = ''NamespaceFS: Invalid delimiter ,'', err_code = None,
            err_rpc_code = None\<rparr>, fs0)"
  by (simp add: run inputs list_request_def split del: if_split cong: by_need)

text \<open>
  Claim C8, amended.  A \<open>list_objects\<close> or \<open>list_object_versions\<close> request whose delimiter
  is neither empty nor \<open>/\<close> fails and leaves the filesystem unchanged.  When the account
  has an nsfs configuration and the bucket directory exists, the failure is the plain
  error \<open>NamespaceFS: Invalid delimiter <d>\<close>; \<open>_translate_object_error_codes\<close> gives it no
  rpc code, so it is not surfaced as \<open>BAD_REQUEST\<close>.
\<close>

theorem invalid_delimiter_fails:
  assumes "lp_delimiter params = Some d" and "d \<noteq> []" and "d \<noteq> ''/''"
  shows "(\<exists>e. list_objects walk ns sdk params s = (Inl e, s))
       \<and> (\<exists>e. list_object_versions walk ns sdk params s = (Inl e, s))
       \<and> (nsfs_account_config sdk \<longrightarrow> load_bucket ns s = (Inr (), s) \<longrightarrow>
            list_objects walk ns sdk params s =
              (Inl \<lparr>err_message = ''NamespaceFS: Invalid delimiter '' @ d, err_code = None,
                    err_rpc_code = None\<rparr>, s)
          \<and> list_object_versions walk ns sdk params s =
              (Inl \<lparr>err_message = ''NamespaceFS: Invalid delimiter '' @ d, err_code = None,
                    err_rpc_code = None\<rparr>, s))"
  using list_objects_common_invalid_delimiter [OF assms, where walk = walk and ns = ns and sdk = sdk and s = s]
  by (simp add: list_objects_def list_object_versions_def new_Error_def)

theorem invalid_delimiter_fails_witness:
  "list_object_versions (\<lambda>d l v. fs_return \<lparr>lr_objects = [], lr_common_prefixes = [],
        lr_is_truncated = False, lr_next_marker = None, lr_next_version_id_marker = None\<rparr>)
      (ns0 VER_ENABLED) sdk0 (list_request ''|'') fs0 =
     (Inl \<lparr>err_message = ''NamespaceFS: Invalid delimiter |'', err_code = None,
           err_rpc_code = None\<rparr>, fs0)"
  using invalid_delimiter_fails [of "list_request ''|''" "''|''"
      "\<lambda>d l v. fs_return \<lparr>lr_objects = [], lr_common_prefixes = [],
        lr_is_truncated = False, lr_next_marker = None, lr_next_version_id_marker = None\<rparr>"
      "ns0 VER_ENABLED" sdk0 fs0]
  by (simp add: list_request_def sdk0_def load_bucket_def [THEN fun_cong] native_stat_def
        monad_app ns0_def fs0_def obj_get_def dir_exists_def strip_trailing_slashes_def)

subsection \<open>JavaScript objects\<close>










subsection \<open>The etag rule\<close>




subsection \<open>The xattr codec\<close>









subsection \<open>Delete with a version id under disabled versioning\<close>

text \<open>
  Claim C7 fails on the code.  The bucket \<open>fs_k\<close> is what the upload of \<open>abc\<close> to the key
  \<open>k\<close> leaves under disabled versioning.  In that bucket, still under disabled versioning,
  \<open>delete_object\<close> of \<open>k\<close> with the version id \<open>null\<close> returns the empty result but
  unlinks the file: \<open>_find_version_path\<close> resolves the version id to the latest path and
  \<open>_delete_single_object\<close> removes it.  In \<open>delete_multiple_objects\<close> the entry
  \<open>{key: k, version_id: null}\<close> is not skipped either, because the branch for disabled
  versioning looks at the property \<open>version\<close>; the file is unlinked and the result is
  \<open>{key: k}\<close>.
\<close>

theorem disabled_delete_with_version_id_unlinks:
  "state_after (upload_object (\<lambda>bytes. bytes) cfg0 (ns0 VER_DISABLED) sdk0
                  (put_params ''k'' None ''abc'')) fs0 = fs_k
   \<and> delete_object cfg0 (ns0 VER_DISABLED) sdk0 ''k'' (Some ''null'') fs_k =
       (Inr Res_empty, fs_k\<lparr>files := []\<rparr>)
   \<and> delete_multiple_objects cfg0 (ns0 VER_DISABLED) sdk0
         [\<lparr>de_key = ''k'', de_version = None, de_version_id = Some ''null''\<rparr>] fs_k =
       (Inr [Res_key ''k''], fs_k\<lparr>files := []\<rparr>)"
  by (simp add: run inputs fs_k_def split del: if_split cong: by_need)

subsection \<open>Two files with the version id \<open>null\<close>\<close>

lemma run_1_eq:
  "run_1 =
     \<lparr>files = [(''/b/a/k_x'', \<lparr>f_ino = 1, f_mtimeNs = 2,
                                f_xattr = [(''user.version_id'', ''null'')], f_data = ''X''\<rparr>)],
      dirs = [''/b''], next_ino = 2, clock = 3, next_uuid = 2\<rparr>"
  by (simp add: run_1_def run inputs split del: if_split cong: by_need)

lemma run_2_eq:
  "run_2 =
     \<lparr>files = [(''/b/a/k_x'', \<lparr>f_ino = 1, f_mtimeNs = 2,
                                f_xattr = [(''user.version_id'', ''null'')], f_data = ''X''\<rparr>),
               (''/b/a/.versions/k_null'',
                \<lparr>f_ino = 2, f_mtimeNs = 3,
                 f_xattr = [(''user.version_id'', ''null''), (''user.delete_marker'', ''true'')],
                 f_data = []\<rparr>)],
      dirs = [''/b''], next_ino = 3, clock = 4, next_uuid = 3\<rparr>"
  by (simp add: run_2_def run_1_eq run inputs split del: if_split cong: by_need)

lemma run_3_eq:
  "run_3 =
     \<lparr>files = [(''/b/a/.versions/k_null'',
                \<lparr>f_ino = 2, f_mtimeNs = 3,
                 f_xattr = [(''user.version_id'', ''null''), (''user.delete_marker'', ''true'')],
                 f_data = []\<rparr>),
               (''/b/a/.versions/k_x_null'',
                \<lparr>f_ino = 1, f_mtimeNs = 2,
                 f_xattr = [(''user.version_id'', ''null'')], f_data = ''X''\<rparr>),
               (''/b/a/k_x'',
                \<lparr>f_ino = 3, f_mtimeNs = 5,
                 f_xattr = [(''user.version_id'', ''mtime-5-ino-3''),
                            (''user.prev_version_id'', ''null'')],
                 f_data = ''Y''\<rparr>)],
      dirs = [''/b''], next_ino = 4, clock = 6, next_uuid = 6\<rparr>"
  by (simp add: run_3_def run_2_eq run inputs split del: if_split cong: by_need)

lemma upload_4_eq:
  "upload_object (\<lambda>bytes. bytes) cfg0 (ns0 VER_ENABLED) sdk0
     (put_params ''a/k'' (Some [(''prev_version_id'', ''x_null'')]) ''Z'') run_3 =
   (Inr \<lparr>ui_etag = ''mtime-7-ino-4'', ui_encryption = None,
         ui_version_id = Some ''mtime-7-ino-4''\<rparr>,
    \<lparr>files = [(''/b/a/.versions/k_null'',
                \<lparr>f_ino = 2, f_mtimeNs = 3,
                 f_xattr = [(''user.version_id'', ''null''), (''user.delete_marker'', ''true'')],
                 f_data = []\<rparr>),
               (''/b/a/.versions/k_x_null'',
                \<lparr>f_ino = 1, f_mtimeNs = 2,
                 f_xattr = [(''user.version_id'', ''null'')], f_data = ''X''\<rparr>),
               (''/b/a/k_x'',
                \<lparr>f_ino = 3, f_mtimeNs = 5,
                 f_xattr = [(''user.version_id'', ''mtime-5-ino-3''),
                            (''user.prev_version_id'', ''null'')],
                 f_data = ''Y''\<rparr>),
               (''/b/a/k'',
                \<lparr>f_ino = 4, f_mtimeNs = 7,
                 f_xattr = [(''user.prev_version_id'', ''x_null''),
                            (''user.version_id'', ''mtime-7-ino-4'')],
                 f_data = ''Z''\<rparr>)],
      dirs = [''/b''], next_ino = 5, clock = 8, next_uuid = 8\<rparr>)"
  by (simp add: run_3_eq run inputs split del: if_split cong: by_need)

lemma run_4_eq:
  "run_4 =
    \<lparr>files = [(''/b/a/.versions/k_null'',
                \<lparr>f_ino = 2, f_mtimeNs = 3,
                 f_xattr = [(''user.version_id'', ''null''), (''user.delete_marker'', ''true'')],
                 f_data = []\<rparr>),
               (''/b/a/.versions/k_x_null'',
                \<lparr>f_ino = 1, f_mtimeNs = 2,
                 f_xattr = [(''user.version_id'', ''null'')], f_data = ''X''\<rparr>),
               (''/b/a/k_x'',
                \<lparr>f_ino = 3, f_mtimeNs = 5,
                 f_xattr = [(''user.version_id'', ''mtime-5-ino-3''),
                            (''user.prev_version_id'', ''null'')],
                 f_data = ''Y''\<rparr>),
               (''/b/a/k'',
                \<lparr>f_ino = 4, f_mtimeNs = 7,
                 f_xattr = [(''user.prev_version_id'', ''x_null''),
                            (''user.version_id'', ''mtime-7-ino-4'')],
                 f_data = ''Z''\<rparr>)],
      dirs = [''/b''], next_ino = 5, clock = 8, next_uuid = 8\<rparr>"
  by (simp add: run_4_def state_after_def upload_4_eq)

lemma run_5_eq:
  "run_5 =
    \<lparr>files = [(''/b/a/.versions/k_null'',
                \<lparr>f_ino = 2, f_mtimeNs = 3,
                 f_xattr = [(''user.version_id'', ''null''), (''user.delete_marker'', ''true'')],
                 f_data = []\<rparr>),
               (''/b/a/k_x'',
                \<lparr>f_ino = 3, f_mtimeNs = 5,
                 f_xattr = [(''user.version_id'', ''mtime-5-ino-3''),
                            (''user.prev_version_id'', ''null'')],
                 f_data = ''Y''\<rparr>),
               (''/b/a/k'',
                \<lparr>f_ino = 1, f_mtimeNs = 2,
                 f_xattr = [(''user.version_id'', ''null'')], f_data = ''X''\<rparr>)],
      dirs = [''/b''], next_ino = 5, clock = 8, next_uuid = 10\<rparr>"
  by (simp add: run_5_def run_4_eq run inputs split del: if_split cong: by_need)

text \<open>
  Claim C1 fails on the code.  All operations of the run \<open>run_1\<close>, ..., \<open>run_5\<close> are
  uploads and deletes under suspended or enabled versioning, starting from the empty
  bucket.  The fourth one, the upload of \<open>a/k\<close>, returns the version id \<open>mtime-7-ino-4\<close>;
  the fifth deletes that version.  After it the key \<open>a/k\<close> has two files with the version
  id \<open>null\<close>: the latest file \<open>/b/a/k\<close> and the entry \<open>/b/a/.versions/k_null\<close>.

  What happens: \<open>find_max_version_past\<close> compares the names in \<open>.versions/\<close> with the
  whole key \<open>a/k\<close>, not with its base name, so for the nested key the upload finds no
  previous version and the \<open>prev_version_id\<close> of the user metadata stays in the xattrs;
  the delete of the latest version then promotes the file that this value names,
  \<open>.versions/k_x_null\<close>, the null version of the other key \<open>a/k_x\<close>, while the delete marker
  \<open>k_null\<close> is still in \<open>.versions/\<close>.
\<close>

theorem two_null_versions_of_a_key:
  "fst (upload_object (\<lambda>bytes. bytes) cfg0 (ns0 VER_ENABLED) sdk0
          (put_params ''a/k'' (Some [(''prev_version_id'', ''x_null'')]) ''Z'') run_3) =
     Inr \<lparr>ui_etag = ''mtime-7-ino-4'', ui_encryption = None,
          ui_version_id = Some ''mtime-7-ino-4''\<rparr>
   \<and> null_version_paths cfg0 (ns0 VER_ENABLED) ''a/k'' run_4 = [''/b/a/.versions/k_null'']
   \<and> map fst (files run_5) = [''/b/a/.versions/k_null'', ''/b/a/k_x'', ''/b/a/k'']
   \<and> null_version_paths cfg0 (ns0 VER_ENABLED) ''a/k'' run_5 =
       [''/b/a/k'', ''/b/a/.versions/k_null'']"
proof (intro conjI)
  show "fst (upload_object (\<lambda>bytes. bytes) cfg0 (ns0 VER_ENABLED) sdk0
          (put_params ''a/k'' (Some [(''prev_version_id'', ''x_null'')]) ''Z'') run_3) =
     Inr \<lparr>ui_etag = ''mtime-7-ino-4'', ui_encryption = None,
          ui_version_id = Some ''mtime-7-ino-4''\<rparr>"
    by (simp add: upload_4_eq)
  show "null_version_paths cfg0 (ns0 VER_ENABLED) ''a/k'' run_4 = [''/b/a/.versions/k_null'']"
    by (simp add: null_version_paths_def run_4_eq run cfg0_def ns0_def
          split del: if_split cong: by_need)
  show "map fst (files run_5) = [''/b/a/.versions/k_null'', ''/b/a/k_x'', ''/b/a/k'']"
    by (simp add: run_5_eq)
  show "null_version_paths cfg0 (ns0 VER_ENABLED) ''a/k'' run_5 =
          [''/b/a/k'', ''/b/a/.versions/k_null'']"
    by (simp add: null_version_paths_def run_5_eq run cfg0_def ns0_def
          split del: if_split cong: by_need)
qed

end
